theory Spec2Isabelle
  imports Main
begin

section \<open>Data model\<close>

text \<open>
  A slot of a Python tuple of the \<open>flash_options\<close> table, and the attributes
  \<open>selectedfw\<close> and \<open>selectedboard\<close> that are unpacked from it: a string or \<open>None\<close>.
\<close>

datatype pyval = Str string | PyNone

text \<open>\<open>str(v)\<close> as an f-string interpolates it.\<close>

fun py_str :: "pyval \<Rightarrow> string" where
  "py_str (Str s) = s"
| "py_str PyNone = ''None''"

text \<open>
  The exceptions that leave a method of the program. \<open>exit()\<close> raises \<open>SystemExit\<close>,
  which nothing in the program catches. An exception raised by the flasher inside
  \<open>execute_esptool_command\<close> is caught there and is represented by its message only.
\<close>

datatype error =
    SystemExit
  | ValueError string
  | UnboundLocalError string
  | AttributeError string
  | FileNotFoundError string
  | IsADirectoryError string
  | NotADirectoryError string
  | FileExistsError string
  | DirectoryNotEmpty string
  | RequestException string
  | JSONError string
  | IndexError string
  | KeyError string
  | GitCommandError string

datatype git_cmd =
    Clone string string
  | Open_repo string
  | Reset_hard string
  | Clean_xdf string
  | Pull string

text \<open>
  Everything the program does to its environment, in the order it does it:
  a printed line (colour escapes left out), the menu text \<open>self.choices\<close>, a call of
  \<open>esptool.main\<close> with its parameter list (a Python list, whose elements come from
  the slots of a tuple), a \<open>time.sleep\<close>, a prompt of \<open>input\<close>,
  an enumeration of the serial ports, an HTTP request and a git command.
\<close>

datatype event =
    Print string
  | PrintMenu
  | Invoke "pyval list"
  | Sleep nat
  | Prompt string
  | Comports
  | HttpGet string
  | Git git_cmd

text \<open>An entry of \<open>serial.tools.list_ports.comports()\<close>.\<close>

record port =
  device :: string
  hwid :: string

text \<open>
  What one call of \<open>esptool.main\<close> does: it returns, it raises an \<open>Exception\<close> with a
  message (caught by the retry loop), or it raises something \<open>except Exception\<close> does not
  catch (\<open>SystemExit\<close> from its argument parser).
\<close>

datatype esptool_outcome = Succeeds | Fails string | Aborts

text \<open>
  The file system below the working directory: an association list from the path
  relative to the working directory to the kind of the entry, the time of its creation
  and the time of the last change of its inode (contents, mode, owner or name), in the
  order a directory scan yields the entries. The first entry of a path counts. A
  symbolic link whose target exists stands for its target; one whose target is missing
  is an entry of its own kind.
\<close>

datatype kind = File | Dir | Dangling

type_synonym filesystem = "(string \<times> kind \<times> nat \<times> nat) list"

text \<open>
  The object \<open>ESP32Flasher\<close> together with the environment it acts on. The attributes
  \<open>extraesp32bins\<close>, \<open>scorpbins\<close>, \<open>BR\<close>, \<open>hardresetlist\<close> and \<open>choices\<close> are assigned once
  in \<open>__init__\<close> and never again: they are constants below. The firmware attributes
  (\<open>esp32marauderfw\<close> and the others) hold \<open>None\<close> for Python's \<open>None\<close>; they are never read
  by the program, so an attribute that is not yet assigned is \<open>None\<close> as well.
  \<open>fwchoicepreselect\<close> is read, and is \<open>None\<close> until \<open>choose_fw\<close> assigns it.

  The environment: the outcome of the \<open>n\<close>-th call of \<open>esptool.main\<close>, the ports the
  \<open>n\<close>-th enumeration finds, what the \<open>n\<close>-th \<open>int(input())\<close> yields (\<open>None\<close>: the text is
  no integer), whether the system is a POSIX one (\<open>os.path.getctime\<close> is the time of
  the last change of the inode there, and the time of creation on Windows), the time at
  which the \<open>n\<close>-th event happens (a file gets it as its creation time), the body an HTTP request returns (\<open>None\<close>: the request raises), the
  download URLs of the assets that the JSON of a body lists (\<open>None\<close> for the list:
  decoding or the key \<open>assets\<close> raises; \<open>None\<close> for an asset: it has no URL), and what
  a git command makes of the file system (\<open>None\<close>: the command raises).
\<close>

record world =
  serialport :: string
  fwchoice :: "int option"
  fwchoicepreselect :: "bool option"
  selectedfw :: pyval
  selectedboard :: pyval
  esp32marauderfw :: "string option"
  esp32s3fw :: "string option"
  espoldhardwarefw :: "string option"
  esp32minifw :: "string option"
  espnewhardwarefw :: "string option"
  evilportalfwwroom :: "string option"
  evilportalfws2 :: "string option"
  fs :: filesystem
  trace :: "event list"
  posix :: bool
  now :: "nat \<Rightarrow> nat"
  esptool_main :: "nat \<Rightarrow> pyval list \<Rightarrow> esptool_outcome"
  comports :: "nat \<Rightarrow> port list"
  stdin :: "nat \<Rightarrow> int option"
  http_get :: "string \<Rightarrow> string option"
  release_assets :: "string \<Rightarrow> string option list option"
  git :: "git_cmd \<Rightarrow> filesystem \<Rightarrow> filesystem option"

definition extraesp32bins :: string where
  "extraesp32bins = ''Extra_ESP32_Bins''"

definition BR :: string where
  "BR = ''115200''"

definition repo_url :: string where
  "repo_url = ''https://github.com/UberGuidoZ/Marauder_BINs.git''"

definition emit :: "event \<Rightarrow> world \<Rightarrow> world" where
  "emit e w = w\<lparr>trace := trace w @ [e]\<rparr>"

fun is_comports :: "event \<Rightarrow> bool" where
  "is_comports Comports = True"
| "is_comports _ = False"

fun is_prompt :: "event \<Rightarrow> bool" where
  "is_prompt (Prompt s) = True"
| "is_prompt _ = False"

text \<open>
  The parameter lists the flasher has been called with so far, oldest first, and how
  many calls that is.
\<close>

fun params_of :: "event list \<Rightarrow> pyval list list" where
  "params_of [] = []"
| "params_of (Invoke ps # es) = ps # params_of es"
| "params_of (e # es) = params_of es"

definition invoked :: "world \<Rightarrow> pyval list list" where
  "invoked w = params_of (trace w)"

definition esptool_calls :: "world \<Rightarrow> nat" where
  "esptool_calls w = length (invoked w)"

section \<open>The retry loop of the flasher\<close>

text \<open>
  \<open>execute_esptool_command\<close>: the body of \<open>for _ in range(tries)\<close>, with the iterations
  that are left and the counter \<open>attempts\<close>. A success leaves the loop by \<open>break\<close>; the
  third failure calls \<open>exit()\<close>; any other failure sleeps and goes round again.
\<close>

fun esptool_loop :: "nat \<Rightarrow> nat \<Rightarrow> string \<Rightarrow> pyval list \<Rightarrow> world \<Rightarrow> (error + unit) \<times> world" where
  "esptool_loop 0 attempts message params w = (Inr (), w)"
| "esptool_loop (Suc k) attempts message params w =
     (let attempts' = attempts + 1;
          w1 = emit (Print message) w;
          outcome = esptool_main w1 (esptool_calls w1) params;
          w2 = emit (Invoke params) w1
      in case outcome of
           Succeeds \<Rightarrow>
             (Inr (), emit (Print (py_str (selectedboard w2) @ '' has been flashed with ''
                                    @ py_str (selectedfw w2))) w2)
         | Aborts \<Rightarrow> (Inl SystemExit, w2)
         | Fails err \<Rightarrow>
             (let w3 = emit (Print err) w2
              in if attempts' = 3
                 then (Inl SystemExit,
                       emit (Print (''Could not complete the operation on ''
                                    @ py_str (selectedboard w3))) w3)
                 else esptool_loop k attempts' message params
                        (emit (Sleep 5) (emit (Print ''Waiting 5 seconds and trying again...'') w3))))"

definition execute_esptool_command :: "string \<Rightarrow> pyval list \<Rightarrow> world \<Rightarrow> (error + unit) \<times> world" where
  "execute_esptool_command message params w = esptool_loop 3 0 message params w"

definition erase_esp32 :: "world \<Rightarrow> (error + unit) \<times> world" where
  "erase_esp32 w = execute_esptool_command ''Erasing firmware...'' [Str ''erase_flash''] w"

text \<open>\<open>flashtheboard\<close>: the erase, then the write; an exception of the erase ends it.\<close>

definition flashtheboard :: "pyval list \<Rightarrow> pyval list \<Rightarrow> world \<Rightarrow> (error + unit) \<times> world" where
  "flashtheboard eraseparams flashparams w =
     (case erase_esp32 w of
        (Inl e, w1) \<Rightarrow> (Inl e, w1)
      | (Inr u, w1) \<Rightarrow>
          execute_esptool_command
            (''Flashing '' @ py_str (selectedfw w1) @ '' on '' @ py_str (selectedboard w1))
            flashparams w1)"

section \<open>Strings and paths\<close>

text \<open>\<open>s.startswith(p)\<close> and \<open>needle in hay\<close> on strings.\<close>

fun starts_with :: "string \<Rightarrow> string \<Rightarrow> bool" where
  "starts_with [] s = True"
| "starts_with (p # ps) [] = False"
| "starts_with (p # ps) (c # cs) = (p = c \<and> starts_with ps cs)"

fun str_contains :: "string \<Rightarrow> string \<Rightarrow> bool" where
  "str_contains needle [] = (needle = [])"
| "str_contains needle (c # cs) = (starts_with needle (c # cs) \<or> str_contains needle cs)"

text \<open>The components of a path: \<open>p.split('/')\<close>, and the path of a list of components.\<close>

fun split_slash :: "string \<Rightarrow> string list" where
  "split_slash [] = [[]]"
| "split_slash (c # cs) =
     (if c = CHR ''/'' then [] # split_slash cs
      else (case split_slash cs of [] \<Rightarrow> [[c]] | x # xs \<Rightarrow> (c # x) # xs))"

fun join_slash :: "string list \<Rightarrow> string" where
  "join_slash [] = []"
| "join_slash [x] = x"
| "join_slash (x # y # ys) = x @ ''/'' @ join_slash (y # ys)"

text \<open>
  \<open>url.rsplit('/', 1)[1]\<close>: the text after the last slash; without a slash the list has
  one element and the index raises.
\<close>

definition after_last_slash :: "string \<Rightarrow> error + string" where
  "after_last_slash s =
     (if CHR ''/'' \<in> set s then Inr (rev (takeWhile (\<lambda>c. c \<noteq> CHR ''/'') (rev s)))
      else Inl (IndexError ''list index out of range''))"

text \<open>
  A name against one component of a glob pattern. Of the special characters of
  \<open>fnmatch\<close> only the star occurs in the patterns of the program; it stands for any run
  of characters.
\<close>

fun wild_match :: "string \<Rightarrow> string \<Rightarrow> bool" where
  "wild_match [] [] = True"
| "wild_match [] (c # cs) = False"
| "wild_match (p # ps) [] = (p = CHR ''*'' \<and> wild_match ps [])"
| "wild_match (p # ps) (c # cs) =
     (if p = CHR ''*'' then wild_match ps (c # cs) \<or> wild_match (p # ps) cs
      else p = c \<and> wild_match ps cs)"

definition is_hidden :: "string \<Rightarrow> bool" where
  "is_hidden name = starts_with ''.'' name"

section \<open>The file system\<close>

definition kind_of :: "filesystem \<Rightarrow> string \<Rightarrow> kind option" where
  "kind_of f p = map_option fst (map_of f p)"

text \<open>The directories above a path, from the outermost on.\<close>

definition parent_paths :: "string \<Rightarrow> string list" where
  "parent_paths p = (let cs = split_slash p in map (\<lambda>k. join_slash (take k cs)) [1..<length cs])"

text \<open>
  The way to a path through the directories above it: a missing one (or a dangling
  link) gives \<open>ENOENT\<close>, a file gives \<open>ENOTDIR\<close>, for the path that was asked for.
\<close>

fun walk :: "string list \<Rightarrow> string \<Rightarrow> filesystem \<Rightarrow> error option" where
  "walk [] p f = None"
| "walk (q # qs) p f =
     (case kind_of f q of
        None \<Rightarrow> Some (FileNotFoundError p)
      | Some Dir \<Rightarrow> walk qs p f
      | Some File \<Rightarrow> Some (NotADirectoryError p)
      | Some Dangling \<Rightarrow> Some (FileNotFoundError p))"

definition reachable :: "filesystem \<Rightarrow> string \<Rightarrow> bool" where
  "reachable f p = (walk (parent_paths p) p f = None)"

text \<open>\<open>os.lstat\<close>: the entry of a path, without following a link.\<close>

definition lstat :: "filesystem \<Rightarrow> string \<Rightarrow> error + kind \<times> nat \<times> nat" where
  "lstat f p =
     (case walk (parent_paths p) p f of
        Some e \<Rightarrow> Inl e
      | None \<Rightarrow> (case map_of f p of None \<Rightarrow> Inl (FileNotFoundError p) | Some x \<Rightarrow> Inr x))"

text \<open>\<open>os.path.exists\<close>, which follows links: a dangling link does not exist.\<close>

definition path_exists :: "string \<Rightarrow> filesystem \<Rightarrow> bool" where
  "path_exists p f =
     (case lstat f p of
        Inl e \<Rightarrow> False
      | Inr (Dangling, c, ch) \<Rightarrow> False
      | Inr (k, c, ch) \<Rightarrow> True)"

definition delete_entry :: "string \<Rightarrow> filesystem \<Rightarrow> filesystem" where
  "delete_entry p f = filter (\<lambda>e. fst e \<noteq> p) f"

text \<open>
  An entry that is created in a directory or removed from it changes the inode of the
  directory.
\<close>

definition touch :: "string \<Rightarrow> nat \<Rightarrow> filesystem \<Rightarrow> filesystem" where
  "touch q t f = map (\<lambda>(p, k, c, ch). if p = q then (p, k, c, t) else (p, k, c, ch)) f"

definition touch_parent :: "string \<Rightarrow> nat \<Rightarrow> filesystem \<Rightarrow> filesystem" where
  "touch_parent p t f = (case parent_paths p of [] \<Rightarrow> f | q # qs \<Rightarrow> touch (last (q # qs)) t f)"

text \<open>\<open>os.remove\<close>: a path that cannot be reached or is missing, and a directory, raise.\<close>

definition os_remove :: "string \<Rightarrow> nat \<Rightarrow> filesystem \<Rightarrow> error + filesystem" where
  "os_remove p t f =
     (case lstat f p of
        Inl e \<Rightarrow> Inl e
      | Inr (Dir, c, ch) \<Rightarrow> Inl (IsADirectoryError p)
      | Inr (k, c, ch) \<Rightarrow> Inr (touch_parent p t (delete_entry p f)))"

text \<open>
  \<open>os.rmdir\<close>: a path that cannot be reached or is missing, a file or link, and a
  directory that has entries raise.
\<close>

definition os_rmdir :: "string \<Rightarrow> nat \<Rightarrow> filesystem \<Rightarrow> error + filesystem" where
  "os_rmdir p t f =
     (case lstat f p of
        Inl e \<Rightarrow> Inl e
      | Inr (Dir, c, ch) \<Rightarrow>
          (if list_ex (\<lambda>e. starts_with (p @ ''/'') (fst e)) f then Inl (DirectoryNotEmpty p)
           else Inr (touch_parent p t (delete_entry p f)))
      | Inr (k, c, ch) \<Rightarrow> Inl (NotADirectoryError p))"

text \<open>\<open>os.mkdir\<close>: the directories above must be there, the path itself must not.\<close>

definition os_mkdir :: "string \<Rightarrow> nat \<Rightarrow> filesystem \<Rightarrow> error + filesystem" where
  "os_mkdir p t f =
     (case walk (parent_paths p) p f of
        Some e \<Rightarrow> Inl e
      | None \<Rightarrow>
          (if map_of f p \<noteq> None then Inl (FileExistsError p)
           else Inr (touch_parent p t (f @ [(p, Dir, t, t)]))))"

text \<open>
  \<open>os.makedirs\<close>: every directory above the path that does not exist is made, from the
  outside in, and \<open>FileExistsError\<close> is passed over there; then the directory itself is
  made, and every error of that is raised.
\<close>

fun make_parents :: "string list \<Rightarrow> nat \<Rightarrow> filesystem \<Rightarrow> error + filesystem" where
  "make_parents [] t f = Inr f"
| "make_parents (q # qs) t f =
     (if path_exists q f then make_parents qs t f
      else (case os_mkdir q t f of
              Inr f' \<Rightarrow> make_parents qs t f'
            | Inl e \<Rightarrow> (case e of FileExistsError x \<Rightarrow> make_parents qs t f | _ \<Rightarrow> Inl e)))"

definition os_makedirs :: "string \<Rightarrow> nat \<Rightarrow> filesystem \<Rightarrow> error + filesystem" where
  "os_makedirs p t f =
     (case make_parents (parent_paths p) t f of
        Inl e \<Rightarrow> Inl e
      | Inr f' \<Rightarrow> os_mkdir p t f')"

text \<open>
  \<open>open(p, 'wb').write(content)\<close>: the directories above must be there and the path
  must not be a directory; a new file is created, a file that exists is changed, and a
  dangling link gets its target.
\<close>

definition set_entry :: "string \<Rightarrow> kind \<times> nat \<times> nat \<Rightarrow> filesystem \<Rightarrow> filesystem" where
  "set_entry p x f = map (\<lambda>e. if fst e = p then (p, x) else e) f"

definition write_file :: "string \<Rightarrow> nat \<Rightarrow> filesystem \<Rightarrow> error + filesystem" where
  "write_file p t f =
     (case walk (parent_paths p) p f of
        Some e \<Rightarrow> Inl e
      | None \<Rightarrow>
          (case map_of f p of
             None \<Rightarrow> Inr (touch_parent p t (f @ [(p, File, t, t)]))
           | Some (Dir, c, ch) \<Rightarrow> Inl (IsADirectoryError p)
           | Some (File, c, ch) \<Rightarrow> Inr (set_entry p (File, c, t) f)
           | Some (Dangling, c, ch) \<Rightarrow> Inr (set_entry p (File, t, t) f)))"

text \<open>
  \<open>glob.glob(pattern)\<close> for a relative pattern: the paths that can be reached and whose
  components match the components of the pattern one by one; a hidden name matches only
  a component that starts with a dot.
\<close>

definition glob_component :: "string \<Rightarrow> string \<Rightarrow> bool" where
  "glob_component pc name = (wild_match pc name \<and> (is_hidden name \<longrightarrow> is_hidden pc))"

definition glob_path :: "string \<Rightarrow> string \<Rightarrow> bool" where
  "glob_path pattern p = list_all2 glob_component (split_slash pattern) (split_slash p)"

definition glob :: "string \<Rightarrow> filesystem \<Rightarrow> string list" where
  "glob pattern f = filter (\<lambda>p. reachable f p \<and> glob_path pattern p) (remdups (map fst f))"

text \<open>
  \<open>Path(cwd).rglob(pattern)\<close>: the pattern with \<open>**/\<close> in front, so the last components
  of the path match the pattern, at any depth; hidden names match as well.
\<close>

definition rglob_path :: "string \<Rightarrow> string \<Rightarrow> bool" where
  "rglob_path pattern p =
     (let ps = split_slash pattern; cs = split_slash p
      in length ps \<le> length cs \<and> list_all2 wild_match ps (drop (length cs - length ps) cs))"

definition rglob :: "string \<Rightarrow> filesystem \<Rightarrow> string list" where
  "rglob pattern f = filter (\<lambda>p. reachable f p \<and> rglob_path pattern p) (remdups (map fst f))"

text \<open>
  \<open>os.path.getctime\<close>, which follows links: it raises for a path that cannot be
  reached or is missing and for a dangling link; on a POSIX system it is the time of
  the last change of the inode, elsewhere the time of creation.
\<close>

definition getctime :: "bool \<Rightarrow> filesystem \<Rightarrow> string \<Rightarrow> error + nat" where
  "getctime px f p =
     (case lstat f p of
        Inl e \<Rightarrow> Inl e
      | Inr (Dangling, c, ch) \<Rightarrow> Inl (FileNotFoundError p)
      | Inr (k, c, ch) \<Rightarrow> Inr (if px then ch else c))"

text \<open>
  \<open>max(xs, key=k)\<close> on a list that is not empty: the keys are computed in the order of
  the list, the first element is the candidate, a later one replaces it when its key is
  greater; a key that raises ends it.
\<close>

fun py_max_from :: "('a \<Rightarrow> error + nat) \<Rightarrow> 'a \<Rightarrow> nat \<Rightarrow> 'a list \<Rightarrow> error + 'a" where
  "py_max_from k m km [] = Inr m"
| "py_max_from k m km (x # xs) =
     (case k x of
        Inl e \<Rightarrow> Inl e
      | Inr kx \<Rightarrow> if km < kx then py_max_from k x kx xs else py_max_from k m km xs)"

definition py_max :: "('a \<Rightarrow> error + nat) \<Rightarrow> 'a \<Rightarrow> 'a list \<Rightarrow> error + 'a" where
  "py_max k x xs = (case k x of Inl e \<Rightarrow> Inl e | Inr kx \<Rightarrow> py_max_from k x kx xs)"

section \<open>FirmwareManager\<close>

text \<open>Running one step after another; an exception of the first ends the run.\<close>

definition and_then ::
  "(world \<Rightarrow> (error + unit) \<times> world) \<Rightarrow> (world \<Rightarrow> (error + unit) \<times> world) \<Rightarrow> world \<Rightarrow> (error + unit) \<times> world" where
  "and_then m k w = (case m w of (Inl e, w') \<Rightarrow> (Inl e, w') | (Inr u, w') \<Rightarrow> k w')"

text \<open>A step on the file system alone, at the time of the current event.\<close>

definition fs_step :: "(nat \<Rightarrow> filesystem \<Rightarrow> error + filesystem) \<Rightarrow> world \<Rightarrow> (error + unit) \<times> world" where
  "fs_step op w =
     (case op (now w (length (trace w))) (fs w) of
        Inl e \<Rightarrow> (Inl e, w)
      | Inr f \<Rightarrow> (Inr (), w\<lparr>fs := f\<rparr>))"

definition git_step :: "git_cmd \<Rightarrow> world \<Rightarrow> (error + unit) \<times> world" where
  "git_step c w =
     (let w1 = emit (Git c) w
      in case git w1 c (fs w1) of
           None \<Rightarrow> (Inl (GitCommandError ''git''), w1)
         | Some f \<Rightarrow> (Inr (), w1\<lparr>fs := f\<rparr>))"

definition check_and_download :: "world \<Rightarrow> (error + unit) \<times> world" where
  "check_and_download w =
     (if \<not> path_exists extraesp32bins (fs w) then
        and_then (fs_step (os_makedirs extraesp32bins))
                 (git_step (Clone repo_url extraesp32bins))
          (emit (Print (extraesp32bins @ '' folder does not exist, downloading now...'')) w)
      else (Inr (), emit (Print (extraesp32bins @ '' folder exists!'')) w))"

definition get_latest_firmware :: "string \<Rightarrow> world \<Rightarrow> (error + string option) \<times> world" where
  "get_latest_firmware pattern w =
     (case glob pattern (fs w) of
        [] \<Rightarrow> (Inr None, emit (Print (''No firmware files found for pattern: '' @ pattern)) w)
      | x # xs \<Rightarrow>
          (case py_max (getctime (posix w) (fs w)) x xs of
             Inl e \<Rightarrow> (Inl e, w)
           | Inr latest_firmware \<Rightarrow>
               (Inr (Some latest_firmware),
                emit (Print (''Latest firmware found: '' @ latest_firmware)) w)))"

section \<open>ESP32Flasher: the prerequisites\<close>

definition marauderapi :: string where
  "marauderapi = ''https://api.github.com/repos/justcallmekoko/ESP32Marauder/releases/latest''"

definition http_step :: "string \<Rightarrow> (string \<Rightarrow> world \<Rightarrow> (error + unit) \<times> world) \<Rightarrow> world \<Rightarrow> (error + unit) \<times> world" where
  "http_step url k w =
     (let w1 = emit (HttpGet url) w
      in case http_get w1 url of
           None \<Rightarrow> (Inl (RequestException url), w1)
         | Some body \<Rightarrow> k body w1)"

text \<open>The body of the loop over \<open>jsondata['assets']\<close>, and the loop.\<close>

definition download_asset :: "string option \<Rightarrow> world \<Rightarrow> (error + unit) \<times> world" where
  "download_asset assetdl w =
     (case assetdl of
        None \<Rightarrow> (Inl (KeyError ''browser_download_url''), w)
      | Some marauderasset \<Rightarrow>
          (case after_last_slash marauderasset of
             Inl e \<Rightarrow> (Inl e, w)
           | Inr filename \<Rightarrow>
               http_step marauderasset
                 (\<lambda>content. fs_step (write_file (''ESP32Marauder/releases/'' @ filename))) w))"

fun download_assets :: "string option list \<Rightarrow> world \<Rightarrow> (error + unit) \<times> world" where
  "download_assets [] w = (Inr (), w)"
| "download_assets (a # as) w = and_then (download_asset a) (download_assets as) w"

definition set_esp32marauderfw :: "world \<Rightarrow> (error + unit) \<times> world" where
  "set_esp32marauderfw w =
     (case get_latest_firmware ''ESP32Marauder/releases/esp32_marauder_v*_flipper.bin'' w of
        (Inl e, w') \<Rightarrow> (Inl e, w')
      | (Inr r, w') \<Rightarrow> (Inr (), w'\<lparr>esp32marauderfw := r\<rparr>))"

definition checkforesp32marauder :: "world \<Rightarrow> (error + unit) \<times> world" where
  "checkforesp32marauder w =
     (let w1 = emit (Print ''Checking for Marauder releases'') w
      in if \<not> path_exists ''ESP32Marauder/releases'' (fs w1) then
           and_then (fs_step (os_makedirs ''ESP32Marauder/releases''))
             (and_then
                (http_step marauderapi
                   (\<lambda>body w'. case release_assets w' body of
                        None \<Rightarrow> (Inl (JSONError marauderapi), w')
                      | Some assets \<Rightarrow> download_assets assets w'))
                set_esp32marauderfw)
             (emit (Print ''Marauder releases folder does not exist, but that's okay, downloading them now...'') w1)
         else set_esp32marauderfw w1)"

definition evilportalwroomurl :: string where
  "evilportalwroomurl = ''https://github.com/bigbrodude6119/flipper-zero-evil-portal/raw/main/Single%20File%20Bins/Evil%20Portal%20WROOM.bin''"

definition evilportals2url :: string where
  "evilportals2url = ''https://github.com/bigbrodude6119/flipper-zero-evil-portal/raw/main/Single%20File%20Bins/Evil%20Portal%20WiFi%20Board%20or%20S2.bin''"

definition set_evilportalfw :: "world \<Rightarrow> (error + unit) \<times> world" where
  "set_evilportalfw w =
     (Inr (), w\<lparr>evilportalfwwroom := Some ''EvilPortal/EvilPortalWROOM.bin'',
                evilportalfws2 := Some ''EvilPortal/EvilPortalS2.bin''\<rparr>)"

definition checkforevilportal :: "world \<Rightarrow> (error + unit) \<times> world" where
  "checkforevilportal w =
     (let w1 = emit (Print ''Checking for Evil portal'') w
      in if \<not> path_exists ''EvilPortal'' (fs w1) then
           and_then (fs_step (os_makedirs ''EvilPortal''))
             (and_then
                (http_step evilportalwroomurl
                   (\<lambda>content. fs_step (write_file ''EvilPortal/EvilPortalWROOM.bin'')))
                (and_then
                   (http_step evilportals2url
                      (\<lambda>content. fs_step (write_file ''EvilPortal/EvilPortalS2.bin'')))
                   set_evilportalfw))
             (emit (Print ''Evil Portal folder not found, but that's okay, downloading it now'') w1)
         else set_evilportalfw w1)"

definition checkfors3bin :: "world \<Rightarrow> (error + unit) \<times> world" where
  "checkfors3bin w =
     (case get_latest_firmware ''ESP32Marauder/releases/esp32_marauder_v*ultiboardS3.bin'' w of
        (Inl e, w') \<Rightarrow> (Inl e, w')
      | (Inr r, w') \<Rightarrow> (Inr (), w'\<lparr>esp32s3fw := r\<rparr>))"

definition checkforoldhardwarebin :: "world \<Rightarrow> (error + unit) \<times> world" where
  "checkforoldhardwarebin w =
     (case get_latest_firmware ''ESP32Marauder/releases/esp32_marauder_v*_old_hardware.bin'' w of
        (Inl e, w') \<Rightarrow> (Inl e, w')
      | (Inr r, w') \<Rightarrow> (Inr (), w'\<lparr>espoldhardwarefw := r\<rparr>))"

definition checkforminibin :: "world \<Rightarrow> (error + unit) \<times> world" where
  "checkforminibin w =
     (case get_latest_firmware ''ESP32Marauder/releases/esp32_marauder_v*_mini.bin'' w of
        (Inl e, w') \<Rightarrow> (Inl e, w')
      | (Inr r, w') \<Rightarrow> (Inr (), w'\<lparr>esp32minifw := r\<rparr>))"

definition checkfornewhardwarebin :: "world \<Rightarrow> (error + unit) \<times> world" where
  "checkfornewhardwarebin w =
     (case get_latest_firmware ''ESP32Marauder/releases/esp32_marauder_v*_v6.bin'' w of
        (Inl e, w') \<Rightarrow> (Inl e, w')
      | (Inr r, w') \<Rightarrow> (Inr (), w'\<lparr>espnewhardwarefw := r\<rparr>))"

definition prereqcheck :: "world \<Rightarrow> (error + unit) \<times> world" where
  "prereqcheck w =
     and_then check_and_download
       (and_then checkforesp32marauder
          (and_then checkfors3bin
             (and_then checkforoldhardwarebin
                (and_then checkforminibin
                   (and_then checkfornewhardwarebin checkforevilportal)))))
       (emit (Print ''Checking for prerequisites...'') w)"

section \<open>ESP32Flasher: discovery, selection and flashing\<close>

text \<open>\<open>str(n)\<close> of an integer, for the f-string of \<open>choose_fw\<close>.\<close>

fun str_nat :: "nat \<Rightarrow> string" where
  "str_nat n = (if n < 10 then [''0123456789'' ! n]
                else str_nat (n div 10) @ [''0123456789'' ! (n mod 10)])"

declare str_nat.simps [simp del]

definition str_int :: "int \<Rightarrow> string" where
  "str_int i = (if i < 0 then ''-'' @ str_nat (nat (- i)) else str_nat (nat i))"

text \<open>The dictionary \<open>flash_options\<close>, a tuple as the list of its slots.\<close>

definition flash_options :: "(int \<times> pyval list) list" where
  "flash_options =
   [(1, [Str ''Marauder'', Str ''ESP32-S2'', Str ''4MB'', Str ''0x1000'', Str ''Marauder/bootloader.bin'', Str ''0x8000'', Str ''Marauder/partitions.bin'', Str ''0x10000'', Str ''esp32marauderfw'']),
    (2, [Str ''Save Flipper Blackmagic WiFi settings'', Str ''ESP32-S2'', Str ''4MB'', Str ''0x1000'', Str ''Blackmagic/bootloader.bin'', Str ''0x8000'', Str ''Blackmagic/partition-table.bin'', Str ''0x10000'', Str ''Blackmagic/blackmagic.bin'']),
    (3, [Str ''Blackmagic'', Str ''ESP32-S2'', Str ''4MB'', Str ''0x1000'', Str ''Blackmagic/bootloader.bin'', Str ''0x8000'', Str ''Blackmagic/partition-table.bin'', Str ''0x10000'', Str ''Blackmagic/blackmagic.bin'']),
    (4, [Str ''Marauder'', Str ''ESP32-WROOM'', Str ''4MB'', Str ''0x1000'', Str ''bootloader.bin'', Str ''0x8000'', Str ''partitions.bin'', Str ''0x10000'', Str ''espoldhardwarefw'']),
    (5, [Str ''Marauder'', Str ''ESP32 Marauder Mini'', Str ''4MB'', Str ''0x1000'', Str ''bootloader.bin'', Str ''0x8000'', Str ''partitions.bin'', Str ''0x10000'', Str ''esp32minifw'']),
    (6, [Str ''Marauder v6'', Str ''ESP32-WROOM'', Str ''4MB'', Str ''0x1000'', Str ''bootloader.bin'', Str ''0x8000'', Str ''partitions.bin'', Str ''0x10000'', Str ''espnewhardwarefw'']),
    (7, [Str ''Marauder'', Str ''ESP32-S3'', Str ''8MB'', Str ''0x0'', Str ''S3/bootloader.bin'', Str ''0x8000'', Str ''S3/partitions.bin'', Str ''0xE000'', Str ''S3/boot_app0.bin'', Str ''0x10000'', Str ''esp32s3fw'']),
    (8, [Str ''Marauder'', Str ''AWOK v1-3 or Duoboard'', Str ''4MB'', Str ''0x1000'', Str ''bootloader.bin'', Str ''0x8000'', Str ''partitions.bin'', Str ''0x10000'', Str ''espoldhardwarefw'']),
    (9, [Str ''Marauder'', Str ''AWOK v4 Chungus Board'', Str ''4MB'', Str ''0x1000'', Str ''Marauder/bootloader.bin'', Str ''0x8000'', Str ''Marauder/partitions.bin'', Str ''0x10000'', Str ''esp32marauderfw'']),
    (10, [Str ''Marauder'', Str ''AWOK v5 ESP32'', Str ''4MB'', Str ''0x1000'', Str ''Marauder/bootloader.bin'', Str ''0x8000'', Str ''Marauder/partitions.bin'', Str ''0x10000'', Str ''esp32marauderfw'']),
    (11, [Str ''Marauder'', Str ''AWOK Dual ESP32 (Orange Port)'', Str ''4MB'', Str ''0x1000'', Str ''Marauder/bootloader.bin'', Str ''0x8000'', Str ''Marauder/partitions.bin'', Str ''0x10000'', Str ''esp32marauderfw'']),
    (12, [Str ''Marauder'', Str ''AWOK Dual ESP32 Touch Screen (White Port)'', Str ''4MB'', Str ''0x1000'', Str ''bootloader.bin'', Str ''0x8000'', Str ''partitions.bin'', Str ''0x10000'', Str ''espnewhardwarefw'']),
    (13, [Str ''Marauder Mini'', Str ''AWOK Dual ESP32 Mini (White Port)'', Str ''4MB'', Str ''0x1000'', Str ''bootloader.bin'', Str ''0x8000'', Str ''partitions.bin'', Str ''0x10000'', Str ''esp32minifw'']),
    (14, [Str ''Evil Portal'', Str ''ESP32-WROOM'', Str ''4MB'', Str ''0x1000'', Str ''evilportalfwwroom'']),
    (15, [Str ''Evil Portal'', Str ''ESP32-S2'', Str ''4MB'', Str ''0x1000'', Str ''evilportalfws2'']),
    (16, [Str ''Erase ESP32'', PyNone, PyNone, PyNone, PyNone, PyNone, PyNone, PyNone, PyNone]),
    (17, [Str ''Update all files'', PyNone, PyNone, PyNone, PyNone, PyNone, PyNone, PyNone, PyNone]),
    (18, [Str ''Exit'', PyNone, PyNone, PyNone, PyNone, PyNone, PyNone, PyNone, PyNone])]"

text \<open>
  The assignment of a tuple to nine targets: a tuple of another length raises before
  anything is assigned.
\<close>

record slots =
  slot_selectedfw :: pyval
  slot_selectedboard :: pyval
  flashsize :: pyval
  offset_one :: pyval
  bootloader_bin :: pyval
  offset_two :: pyval
  partitions_bin :: pyval
  offset_three :: pyval
  fwbin :: pyval

definition unpack9 :: "pyval list \<Rightarrow> error + slots" where
  "unpack9 t =
     (if length t < 9 then Inl (ValueError ''not enough values to unpack (expected 9)'')
      else if 9 < length t then Inl (ValueError ''too many values to unpack (expected 9)'')
      else Inr \<lparr>slot_selectedfw = t ! 0, slot_selectedboard = t ! 1, flashsize = t ! 2,
                offset_one = t ! 3, bootloader_bin = t ! 4, offset_two = t ! 5,
                partitions_bin = t ! 6, offset_three = t ! 7, fwbin = t ! 8\<rparr>)"

text \<open>The two parameter lists that \<open>flash_firmware\<close> builds.\<close>

definition eraseparams_of :: "world \<Rightarrow> pyval list" where
  "eraseparams_of w = [Str ''-p'', Str (serialport w), Str ''-b'', Str BR, Str ''erase_flash'']"

definition flashparams_of :: "world \<Rightarrow> slots \<Rightarrow> pyval list" where
  "flashparams_of w t =
     [Str ''-p'', Str (serialport w), Str ''-b'', Str BR, Str ''-c'', selectedboard w,
      Str ''--before'', Str ''default_reset'', Str ''-a'', Str ''no_reset'', Str ''write_flash'',
      Str ''--flash_mode'', Str ''dio'', Str ''--flash_freq'', Str ''80m'',
      Str ''--flash_size'', flashsize t, offset_one t, bootloader_bin t, offset_two t,
      partitions_bin t, offset_three t, fwbin t]"

text \<open>
  The two nested loops of \<open>checkforserialport\<close> over the vendor ids and the ports, on
  the pair of \<open>self.serialport\<close> and the local variable \<open>device\<close> (\<open>None\<close>: not assigned).
\<close>

definition vids :: "string list" where
  "vids = [''303A'', ''10C4'', ''1A86'', ''0483'']"

fun scan_ports :: "string \<Rightarrow> port list \<Rightarrow> string \<times> string option \<Rightarrow> string \<times> string option" where
  "scan_ports vid [] acc = acc"
| "scan_ports vid (p # ps) acc =
     scan_ports vid ps (if str_contains vid (hwid p) then (device p, Some vid) else acc)"

fun scan_vids :: "string list \<Rightarrow> port list \<Rightarrow> string \<times> string option \<Rightarrow> string \<times> string option" where
  "scan_vids [] ports acc = acc"
| "scan_vids (vid # vs) ports acc = scan_vids vs ports (scan_ports vid ports acc)"

definition device_types :: "(string \<times> string) list" where
  "device_types =
     [(''303A'', ''You are most likely using a Flipper Zero WiFi Devboard or an ESP32-S2''),
      (''10C4'', ''You are most likely using an ESP32-WROOM, an ESP32-S2-WROVER, or an ESP32-S3-WROOM''),
      (''1A86'', ''You are most likely using a knock-off ESP32 chip! Success is not guaranteed!''),
      (''0483'', ''You are most likely using an DrB0rk S3 Multiboard'')]"

definition print_device_type :: "string \<Rightarrow> world \<Rightarrow> world" where
  "print_device_type dev w =
     emit (Print (case map_of device_types dev of Some t \<Rightarrow> t | None \<Rightarrow> ''Unknown device'')) w"

text \<open>The last statement of \<open>checkforserialport\<close>, which reads the local \<open>device\<close>.\<close>

definition finish_check :: "string option \<Rightarrow> world \<Rightarrow> (error + unit) \<times> world" where
  "finish_check dev w =
     (case dev of
        None \<Rightarrow> (Inl (UnboundLocalError ''device''), w)
      | Some d \<Rightarrow> (Inr (), print_device_type d w))"

text \<open>The two deletion loops of \<open>update_option\<close> and the three \<open>os.rmdir\<close>.\<close>

fun remove_all :: "string list \<Rightarrow> world \<Rightarrow> (error + unit) \<times> world" where
  "remove_all [] w = (Inr (), w)"
| "remove_all (p # ps) w = and_then (fs_step (os_remove p)) (remove_all ps) w"

definition delete_files :: "world \<Rightarrow> (error + unit) \<times> world" where
  "delete_files w =
     and_then (\<lambda>w. remove_all (rglob ''ESP32Marauder/*/*'' (fs w)) w)
       (and_then (\<lambda>w. remove_all (rglob ''EvilPortal/*'' (fs w)) w)
          (and_then (fs_step (os_rmdir ''ESP32Marauder/releases''))
             (and_then (fs_step (os_rmdir ''ESP32Marauder''))
                (fs_step (os_rmdir ''EvilPortal'')))))
       (emit (Print ''Checking for and deleting the files before replacing them...'') w)"

definition refresh_repo :: "world \<Rightarrow> (error + unit) \<times> world" where
  "refresh_repo w =
     and_then (git_step (Open_repo extraesp32bins))
       (and_then (git_step (Reset_hard extraesp32bins))
          (and_then (git_step (Clean_xdf extraesp32bins))
             (git_step (Pull extraesp32bins)))) w"

text \<open>
  The straight-line pieces of the four methods below: the announcement of a
  preselected choice, the menu with the prompt (an answer that is no integer raises),
  the lookup in \<open>flash_options\<close> (\<open>None\<close>: the choice is not a key), and the scan of
  \<open>checkforserialport\<close>, which returns the local \<open>device\<close> beside the object.
\<close>

definition announce_preselect :: "int \<Rightarrow> world \<Rightarrow> world" where
  "announce_preselect c w =
     emit (Sleep 5)
       (emit (Print ''Waiting 5 seconds before continuing...'')
         (emit (Print ''If you didn't mean to do this, CTRL-C now!'')
           (emit (Print (''You have preselected option '' @ str_int c))
             (w\<lparr>fwchoicepreselect := Some True\<rparr>))))"

definition ask_choice :: "world \<Rightarrow> (error + unit) \<times> world" where
  "ask_choice w =
     (let w1 = emit PrintMenu (w\<lparr>fwchoicepreselect := Some False\<rparr>);
          answer = stdin w1 (length (filter is_prompt (trace w1)));
          w2 = emit (Prompt ''Please enter the number of your choice: '') w1
      in case answer of
           None \<Rightarrow> (Inl (ValueError ''invalid literal for int()''), w2)
         | Some c \<Rightarrow> (Inr (), w2\<lparr>fwchoice := Some c\<rparr>))"

definition lookup_option :: "world \<Rightarrow> pyval list option" where
  "lookup_option w = (case fwchoice w of None \<Rightarrow> None | Some c \<Rightarrow> map_of flash_options c)"

definition scan_for_port :: "world \<Rightarrow> string option \<times> world" where
  "scan_for_port w =
     (let w1 = emit (Print ''Checking for serial port...'') w;
          ports = comports w1 (length (filter is_comports (trace w1)));
          w2 = emit Comports w1;
          found = scan_vids vids ports (serialport w2, None)
      in (snd found, w2\<lparr>serialport := fst found\<rparr>))"

definition no_device_notice :: "world \<Rightarrow> world" where
  "no_device_notice w =
     emit (Print ''Please plug in a Flipper WiFi devboard or an ESP32 chip and try again'')
       (emit (Print ''No ESP32 device was detected!'') w)"

text \<open>
  \<open>choose_fw\<close>, \<open>flash_firmware\<close>, \<open>checkforserialport\<close> and \<open>update_option\<close> call each
  other: \<open>update_option\<close> and the fallback of \<open>checkforserialport\<close> call \<open>choose_fw\<close>
  again, without a bound. The first argument bounds the number of nested calls of
  \<open>choose_fw\<close>; \<open>None\<close> says that the bound was reached.
\<close>

fun choose_fw :: "nat \<Rightarrow> world \<Rightarrow> ((error + unit) \<times> world) option"
  and flash_firmware :: "nat \<Rightarrow> world \<Rightarrow> ((error + unit) \<times> world) option"
  and checkforserialport :: "nat \<Rightarrow> world \<Rightarrow> ((error + unit) \<times> world) option"
  and update_option :: "nat \<Rightarrow> world \<Rightarrow> ((error + unit) \<times> world) option"
where
  "choose_fw 0 w = None"
| "choose_fw (Suc n) w =
     (case fwchoice w of
        Some c \<Rightarrow> flash_firmware n (announce_preselect c w)
      | None \<Rightarrow>
          (case ask_choice w of
             (Inl e, w1) \<Rightarrow> Some (Inl e, w1)
           | (Inr u, w1) \<Rightarrow> flash_firmware n w1))"
| "flash_firmware n w =
     (case lookup_option w of
        None \<Rightarrow> Some (Inl SystemExit, emit (Print ''Invalid option!'') w)
      | Some option \<Rightarrow>
          (case unpack9 option of
             Inl e \<Rightarrow> Some (Inl e, w)
           | Inr t \<Rightarrow>
               (let w1 = w\<lparr>selectedfw := slot_selectedfw t, selectedboard := slot_selectedboard t\<rparr>
                in if fwchoice w1 = Some 16 then Some (erase_esp32 w1)
                   else if fwchoice w1 = Some 17 then update_option n w1
                   else if fwchoice w1 = Some 18 then Some (Inl SystemExit, emit (Print ''Exiting!'') w1)
                   else (case checkforserialport n w1 of
                           None \<Rightarrow> None
                         | Some (Inl e, w2) \<Rightarrow> Some (Inl e, w2)
                         | Some (Inr u, w2) \<Rightarrow>
                             Some (flashtheboard (eraseparams_of w2) (flashparams_of w2 t) w2)))))"
| "checkforserialport n w =
     (if serialport w \<noteq> [] then
        Some (Inr (), emit (Print (''Will not check for serial port or possible chip type since it is specified as '' @ serialport w)) w)
      else
        (case scan_for_port w of
           (dev, w1) \<Rightarrow>
             if serialport w1 = [] then
               (let w2 = no_device_notice w1
                in case fwchoicepreselect w2 of
                     None \<Rightarrow> Some (Inl (AttributeError ''fwchoicepreselect''), w2)
                   | Some True \<Rightarrow> Some (Inl SystemExit, w2)
                   | Some False \<Rightarrow>
                       (case choose_fw n w2 of
                          None \<Rightarrow> None
                        | Some (Inl e, w3) \<Rightarrow> Some (Inl e, w3)
                        | Some (Inr u, w3) \<Rightarrow> Some (finish_check dev w3)))
             else Some (finish_check dev w1)))"
| "update_option n w =
     (case and_then delete_files (and_then refresh_repo prereqcheck) w of
        (Inl e, w1) \<Rightarrow> Some (Inl e, w1)
      | (Inr u, w1) \<Rightarrow> choose_fw n w1)"

text \<open>
  \<open>EasyInstall\<close>: the parsed arguments are stored in the object, then the
  prerequisites are checked and the firmware is chosen.
\<close>

definition easy_install :: "nat \<Rightarrow> string \<Rightarrow> int option \<Rightarrow> world \<Rightarrow> ((error + unit) \<times> world) option" where
  "easy_install n port_arg preselect w =
     (case prereqcheck (w\<lparr>serialport := port_arg, fwchoice := preselect\<rparr>) of
        (Inl e, w1) \<Rightarrow> Some (Inl e, w1)
      | (Inr u, w1) \<Rightarrow> choose_fw n w1)"

text \<open>
  The object as \<open>__init__\<close> leaves it, on a POSIX system with the given file system,
  flasher, serial ports and operator, where every HTTP request fails and a git command
  changes nothing.
\<close>

definition fresh_flasher ::
  "filesystem \<Rightarrow> (nat \<Rightarrow> pyval list \<Rightarrow> esptool_outcome) \<Rightarrow> (nat \<Rightarrow> port list) \<Rightarrow> (nat \<Rightarrow> int option) \<Rightarrow> world" where
  "fresh_flasher f flasher ports operator =
     \<lparr>serialport = [], fwchoice = None, fwchoicepreselect = None,
      selectedfw = Str [], selectedboard = Str [],
      esp32marauderfw = None, esp32s3fw = None, espoldhardwarefw = None, esp32minifw = None,
      espnewhardwarefw = None, evilportalfwwroom = None, evilportalfws2 = None,
      fs = f, trace = [], posix = True, now = (\<lambda>n. 100 + n),
      esptool_main = flasher, comports = ports, stdin = operator,
      http_get = (\<lambda>url. None), release_assets = (\<lambda>body. None), git = (\<lambda>c f. Some f)\<rparr>"

text \<open>
  A file system in which all prerequisites are in place, so that \<open>prereqcheck\<close> needs
  neither git nor the network: the mirrored repository, two Marauder releases for the
  WiFi devboard, and the two Evil Portal binaries.
\<close>

definition cached_fs :: filesystem where
  "cached_fs =
     [(''Extra_ESP32_Bins'', Dir, 1, 1),
      (''ESP32Marauder'', Dir, 2, 2),
      (''ESP32Marauder/releases'', Dir, 2, 5),
      (''ESP32Marauder/releases/esp32_marauder_v1_0_flipper.bin'', File, 3, 3),
      (''ESP32Marauder/releases/esp32_marauder_v1_1_flipper.bin'', File, 5, 5),
      (''EvilPortal'', Dir, 6, 8),
      (''EvilPortal/EvilPortalWROOM.bin'', File, 7, 7),
      (''EvilPortal/EvilPortalS2.bin'', File, 8, 8)]"

text \<open>The ports whose hardware id contains a vendor id, in the order of enumeration.\<close>

definition matching_ports :: "string \<Rightarrow> port list \<Rightarrow> port list" where
  "matching_ports v ports = filter (\<lambda>p. str_contains v (hwid p)) ports"

text \<open>
  The discovery as the specification words it, to compare the scan with: the first
  vendor id of the list that has a matching port is chosen, and of its ports the last.
\<close>

definition spec_discover :: "port list \<Rightarrow> string \<times> string option" where
  "spec_discover ports =
     (case filter (\<lambda>v. matching_ports v ports \<noteq> []) vids of
        [] \<Rightarrow> ([], None)
      | v # vs \<Rightarrow> (device (last (matching_ports v ports)), Some v))"

text \<open>Two boards attached at once: a WiFi devboard and an S3 multiboard.\<close>

definition two_boards :: "port list" where
  "two_boards =
     [\<lparr>device = ''/dev/ttyACM0'', hwid = ''USB VID:PID=303A:1001 SER=1''\<rparr>,
      \<lparr>device = ''/dev/ttyUSB0'', hwid = ''USB VID:PID=0483:5740 SER=2''\<rparr>]"

text \<open>
  A file system in which the two deletion loops of \<open>update_option\<close> meet only files:
  every path that one of the two patterns matches is a file.
\<close>

definition files_only :: "filesystem \<Rightarrow> bool" where
  "files_only f =
     list_all (\<lambda>p. kind_of f p = Some File)
       (rglob ''ESP32Marauder/*/*'' f @ rglob ''EvilPortal/*'' f)"

text \<open>
  Three file systems without a directory \<open>ESP32Marauder/releases\<close>: one with files for
  both deletion loops, one in which a directory lies two levels below \<open>ESP32Marauder\<close>,
  and one in which \<open>ESP32Marauder\<close> is a file.
\<close>

definition leftover_fs :: filesystem where
  "leftover_fs =
     [(''Extra_ESP32_Bins'', Dir, 1, 1),
      (''ESP32Marauder'', Dir, 2, 3),
      (''ESP32Marauder/old'', Dir, 3, 4),
      (''ESP32Marauder/old/esp32_marauder_v0_9_flipper.bin'', File, 4, 4),
      (''EvilPortal'', Dir, 5, 6),
      (''EvilPortal/EvilPortalS2.bin'', File, 6, 6)]"

definition stray_directory_fs :: filesystem where
  "stray_directory_fs =
     [(''Extra_ESP32_Bins'', Dir, 1, 1),
      (''ESP32Marauder'', Dir, 2, 3),
      (''ESP32Marauder/old'', Dir, 3, 4),
      (''ESP32Marauder/old/v0'', Dir, 4, 4)]"

definition blocked_fs :: filesystem where
  "blocked_fs =
     [(''Extra_ESP32_Bins'', Dir, 1, 1),
      (''ESP32Marauder'', File, 2, 2)]"

text \<open>
  Two file systems for \<open>get_latest_firmware\<close>. In the first the older release was
  created at 3 and its mode was changed at 9, after the newer release was created at 5.
  In the second a link with the name of a release points to a file that is gone.
\<close>

definition touched_fs :: filesystem where
  "touched_fs =
     [(''ESP32Marauder'', Dir, 2, 2),
      (''ESP32Marauder/releases'', Dir, 2, 5),
      (''ESP32Marauder/releases/esp32_marauder_v1_0_flipper.bin'', File, 3, 9),
      (''ESP32Marauder/releases/esp32_marauder_v1_1_flipper.bin'', File, 5, 5)]"

definition dangling_fs :: filesystem where
  "dangling_fs =
     [(''ESP32Marauder'', Dir, 2, 2),
      (''ESP32Marauder/releases'', Dir, 2, 6),
      (''ESP32Marauder/releases/esp32_marauder_v1_0_flipper.bin'', File, 3, 3),
      (''ESP32Marauder/releases/esp32_marauder_v1_1_flipper.bin'', Dangling, 6, 6)]"

text \<open>A path at which a directory is found.\<close>

definition is_directory :: "filesystem \<Rightarrow> string \<Rightarrow> bool" where
  "is_directory f p = (case lstat f p of Inr (Dir, c, ch) \<Rightarrow> True | _ \<Rightarrow> False)"

text \<open>
  The second file system has the entries of the first, with their kinds, but for files
  and links that have been removed.
\<close>

definition shrunk :: "filesystem \<Rightarrow> filesystem \<Rightarrow> bool" where
  "shrunk f f' =
     (\<forall>q. kind_of f' q = kind_of f q \<or>
          (kind_of f' q = None \<and> (kind_of f q = Some File \<or> kind_of f q = Some Dangling)))"

text \<open>The time of creation of an entry.\<close>

definition created :: "filesystem \<Rightarrow> string \<Rightarrow> nat option" where
  "created f p = map_option (\<lambda>(k, c, ch). c) (map_of f p)"

text \<open>No port at the first enumeration, a WROOM board at every later one.\<close>

definition plugged_in_late :: "nat \<Rightarrow> port list" where
  "plugged_in_late n =
     (if n = 0 then [] else [\<lparr>device = ''/dev/ttyUSB0'', hwid = ''USB VID:PID=10C4:EA60 SER=3''\<rparr>])"

text \<open>
  The value of an offset as the table writes it, \<open>0x\<close> and hexadecimal digits, and the
  property that the three offsets of an unpacked tuple ascend strictly.
\<close>

definition hex_digit :: "char \<Rightarrow> nat option" where
  "hex_digit c =
     map_of [(CHR ''0'', 0), (CHR ''1'', 1), (CHR ''2'', 2), (CHR ''3'', 3), (CHR ''4'', 4),
             (CHR ''5'', 5), (CHR ''6'', 6), (CHR ''7'', 7), (CHR ''8'', 8), (CHR ''9'', 9),
             (CHR ''a'', 10), (CHR ''b'', 11), (CHR ''c'', 12), (CHR ''d'', 13), (CHR ''e'', 14),
             (CHR ''f'', 15), (CHR ''A'', 10), (CHR ''B'', 11), (CHR ''C'', 12), (CHR ''D'', 13),
             (CHR ''E'', 14), (CHR ''F'', 15)] c"

fun hex_digits :: "nat \<Rightarrow> string \<Rightarrow> nat option" where
  "hex_digits acc [] = Some acc"
| "hex_digits acc (c # cs) =
     (case hex_digit c of None \<Rightarrow> None | Some d \<Rightarrow> hex_digits (16 * acc + d) cs)"

fun offset_value :: "pyval \<Rightarrow> nat option" where
  "offset_value (Str (a # b # ds)) =
     (if a = CHR ''0'' \<and> b = CHR ''x'' \<and> ds \<noteq> [] then hex_digits 0 ds else None)"
| "offset_value v = None"

fun strictly_ascending :: "nat option list \<Rightarrow> bool" where
  "strictly_ascending [] = True"
| "strictly_ascending [x] = (x \<noteq> None)"
| "strictly_ascending (x # y # ys) =
     (case (x, y) of (Some a, Some b) \<Rightarrow> a < b \<and> strictly_ascending (y # ys) | _ \<Rightarrow> False)"

definition profile_ascending :: "int \<Rightarrow> bool" where
  "profile_ascending c =
     (case map_of flash_options c of
        None \<Rightarrow> False
      | Some option \<Rightarrow>
          (case unpack9 option of
             Inl e \<Rightarrow> False
           | Inr t \<Rightarrow> strictly_ascending (map offset_value [offset_one t, offset_two t, offset_three t])))"

section \<open>Properties of a session\<close>

text \<open>
  The parameter list of a write, as \<open>flash_firmware\<close> builds it: 23 elements with the
  command \<open>write_flash\<close> in the eleventh place.
\<close>

definition write_invocation :: "pyval list \<Rightarrow> bool" where
  "write_invocation ps = (length ps = 23 \<and> ps ! 10 = Str ''write_flash'')"

text \<open>No write is sent to the flasher before the first full-flash erase.\<close>

fun erase_precedes_write :: "pyval list list \<Rightarrow> bool" where
  "erase_precedes_write [] = True"
| "erase_precedes_write (ps # rest) =
     (ps = [Str ''erase_flash''] \<or> (\<not> write_invocation ps \<and> erase_precedes_write rest))"

definition session_ok :: "pyval list list \<Rightarrow> bool" where
  "session_ok xs =
     (list_all (\<lambda>ps. ps = [Str ''erase_flash''] \<or> write_invocation ps) xs \<and> erase_precedes_write xs)"

text \<open>A step that does not call the flasher.\<close>

definition quiet :: "(world \<Rightarrow> (error + unit) \<times> world) \<Rightarrow> bool" where
  "quiet f = (\<forall>w. invoked (snd (f w)) = invoked w)"

section \<open>Basic facts\<close>

lemma params_of_append [simp]: "params_of (xs @ ys) = params_of xs @ params_of ys"
  by (induction xs rule: params_of.induct) simp_all

lemma emit_fields [simp]:
  "esptool_main (emit e w) = esptool_main w"
  "selectedboard (emit e w) = selectedboard w"
  "selectedfw (emit e w) = selectedfw w"
  "serialport (emit e w) = serialport w"
  "fwchoice (emit e w) = fwchoice w"
  "fwchoicepreselect (emit e w) = fwchoicepreselect w"
  "fs (emit e w) = fs w"
  "trace (emit e w) = trace w @ [e]"
  by (simp_all add: emit_def)

lemma invoked_emit_Invoke [simp]: "invoked (emit (Invoke ps) w) = invoked w @ [ps]"
  by (simp add: invoked_def)

lemma invoked_emit_other [simp]:
  "invoked (emit (Print s) w) = invoked w"
  "invoked (emit PrintMenu w) = invoked w"
  "invoked (emit (Sleep k) w) = invoked w"
  "invoked (emit (Prompt s) w) = invoked w"
  "invoked (emit Comports w) = invoked w"
  "invoked (emit (HttpGet s) w) = invoked w"
  "invoked (emit (Git c) w) = invoked w"
  by (simp_all add: invoked_def)

lemma invoked_fs_update [simp]: "invoked (w\<lparr>fs := f\<rparr>) = invoked w"
  by (simp add: invoked_def)

lemma quietI: "(\<And>w. invoked (snd (f w)) = invoked w) \<Longrightarrow> quiet f"
  by (simp add: quiet_def)

lemma quietD: "quiet f \<Longrightarrow> invoked (snd (f w)) = invoked w"
  by (simp add: quiet_def)

lemma quiet_and_then: "quiet f \<Longrightarrow> quiet g \<Longrightarrow> quiet (and_then f g)"
  unfolding quiet_def and_then_def
  by (auto split: prod.splits sum.splits) (metis snd_conv)+

lemma quiet_fs_step: "quiet (fs_step op)"
  by (auto simp: quiet_def fs_step_def split: sum.splits)

lemma quiet_git_step: "quiet (git_step c)"
  by (auto simp: quiet_def git_step_def Let_def split: option.splits)

lemma quiet_http_step: "(\<And>body. quiet (k body)) \<Longrightarrow> quiet (http_step url k)"
  by (auto simp: quiet_def http_step_def Let_def split: option.splits)

lemma quiet_emit_Print: "quiet f \<Longrightarrow> quiet (\<lambda>w. f (emit (Print s) w))"
  by (simp add: quiet_def)

lemma quiet_check_and_download: "quiet check_and_download"
  unfolding check_and_download_def
  by (rule quietI) (simp add: quietD [OF quiet_and_then [OF quiet_fs_step quiet_git_step]])

lemma invoked_get_latest_firmware: "invoked (snd (get_latest_firmware pat w)) = invoked w"
  by (simp add: get_latest_firmware_def split: list.splits sum.splits)

lemma quiet_download_asset: "quiet (download_asset a)"
  unfolding download_asset_def
  by (rule quietI)
     (simp add: quietD [OF quiet_http_step [OF quiet_fs_step]] split: option.splits sum.splits)

lemma quiet_download_assets: "quiet (download_assets as)"
proof (induction as)
  case Nil
  show ?case by (simp add: quiet_def)
next
  case (Cons a as)
  have "download_assets (a # as) = and_then (download_asset a) (download_assets as)"
    by (rule ext) simp
  with Cons quiet_download_asset show ?case
    by (simp add: quiet_and_then)
qed


lemma invoked_record_updates [simp]:
  "invoked (w\<lparr>esp32marauderfw := a\<rparr>) = invoked w"
  "invoked (w\<lparr>esp32s3fw := a\<rparr>) = invoked w"
  "invoked (w\<lparr>espoldhardwarefw := a\<rparr>) = invoked w"
  "invoked (w\<lparr>esp32minifw := a\<rparr>) = invoked w"
  "invoked (w\<lparr>espnewhardwarefw := a\<rparr>) = invoked w"
  "invoked (w\<lparr>evilportalfwwroom := a\<rparr>) = invoked w"
  "invoked (w\<lparr>evilportalfws2 := a\<rparr>) = invoked w"
  "invoked (w\<lparr>serialport := sp\<rparr>) = invoked w"
  "invoked (w\<lparr>fwchoice := c\<rparr>) = invoked w"
  "invoked (w\<lparr>fwchoicepreselect := b\<rparr>) = invoked w"
  "invoked (w\<lparr>selectedfw := v\<rparr>) = invoked w"
  "invoked (w\<lparr>selectedboard := v\<rparr>) = invoked w"
  by (simp_all add: invoked_def)

lemma latest_result: "get_latest_firmware pat w = (r, w') \<Longrightarrow> invoked w' = invoked w"
  using invoked_get_latest_firmware [of pat w] by simp

lemma quiet_set_esp32marauderfw: "quiet set_esp32marauderfw"
  by (rule quietI) (auto simp: set_esp32marauderfw_def split: prod.splits sum.splits dest: latest_result)

lemma quiet_latest:
  "quiet checkfors3bin" "quiet checkforoldhardwarebin" "quiet checkforminibin"
  "quiet checkfornewhardwarebin"
  unfolding checkfors3bin_def checkforoldhardwarebin_def checkforminibin_def
    checkfornewhardwarebin_def
  by (rule quietI, auto split: prod.splits sum.splits dest: latest_result)+

lemma quiet_release_list:
  "quiet (\<lambda>w'. case release_assets w' body of
                  None \<Rightarrow> (Inl (JSONError marauderapi), w')
                | Some assets \<Rightarrow> download_assets assets w')"
  by (rule quietI) (simp add: quietD [OF quiet_download_assets] split: option.splits)

lemma quiet_checkforesp32marauder: "quiet checkforesp32marauder"
  unfolding checkforesp32marauder_def Let_def
  by (rule quietI)
     (simp add: quietD [OF quiet_set_esp32marauderfw]
        quietD [OF quiet_and_then [OF quiet_fs_step
          quiet_and_then [OF quiet_http_step [of _ marauderapi, OF quiet_release_list] quiet_set_esp32marauderfw]]])

lemma quiet_set_evilportalfw: "quiet set_evilportalfw"
  by (rule quietI) (simp add: set_evilportalfw_def invoked_def)

lemma quiet_checkforevilportal: "quiet checkforevilportal"
  unfolding checkforevilportal_def Let_def
  by (rule quietI)
     (simp add: quietD [OF quiet_set_evilportalfw]
        quietD [OF quiet_and_then [OF quiet_fs_step
          quiet_and_then [OF quiet_http_step [OF quiet_fs_step]
            quiet_and_then [OF quiet_http_step [OF quiet_fs_step] quiet_set_evilportalfw]]]])

lemma quiet_prereqcheck: "quiet prereqcheck"
  unfolding prereqcheck_def
  by (rule quietI)
     (simp add: quietD [OF quiet_and_then [OF quiet_check_and_download
        quiet_and_then [OF quiet_checkforesp32marauder
          quiet_and_then [OF quiet_latest(1)
            quiet_and_then [OF quiet_latest(2)
              quiet_and_then [OF quiet_latest(3)
                quiet_and_then [OF quiet_latest(4) quiet_checkforevilportal]]]]]]])

lemma quiet_remove_all: "quiet (remove_all ps)"
proof (induction ps)
  case Nil
  show ?case by (simp add: quiet_def)
next
  case (Cons p ps)
  have "remove_all (p # ps) = and_then (fs_step (os_remove p)) (remove_all ps)"
    by (rule ext) simp
  with Cons show ?case
    by (simp add: quiet_and_then quiet_fs_step)
qed

lemma quiet_remove_globbed: "quiet (\<lambda>w. remove_all (rglob pat (fs w)) w)"
  by (rule quietI) (simp add: quietD [OF quiet_remove_all])

lemma quiet_delete_files: "quiet delete_files"
  unfolding delete_files_def
  by (rule quietI)
     (simp add: quietD [OF quiet_and_then [OF quiet_remove_globbed
        quiet_and_then [OF quiet_remove_globbed
          quiet_and_then [OF quiet_fs_step quiet_and_then [OF quiet_fs_step quiet_fs_step]]]]])

lemma quiet_refresh_repo: "quiet refresh_repo"
  unfolding refresh_repo_def
  by (intro quiet_and_then quiet_git_step)

lemma quiet_update_prefix: "quiet (and_then delete_files (and_then refresh_repo prereqcheck))"
  by (intro quiet_and_then quiet_delete_files quiet_refresh_repo quiet_prereqcheck)

lemma invoked_announce_preselect [simp]: "invoked (announce_preselect c w) = invoked w"
  by (simp add: announce_preselect_def)

lemma invoked_ask_choice [simp]: "invoked (snd (ask_choice w)) = invoked w"
  by (simp add: ask_choice_def Let_def split: option.splits)

lemma invoked_scan_for_port [simp]: "invoked (snd (scan_for_port w)) = invoked w"
  by (simp add: scan_for_port_def Let_def)

lemma invoked_no_device_notice [simp]: "invoked (no_device_notice w) = invoked w"
  by (simp add: no_device_notice_def)

lemma invoked_finish_check [simp]: "invoked (snd (finish_check dev w)) = invoked w"
  by (simp add: finish_check_def print_device_type_def split: option.splits)

lemma esptool_loop_invoked:
  "\<exists>k. k \<le> n \<and> (0 < n \<longrightarrow> 0 < k) \<and>
       invoked (snd (esptool_loop n a m p w)) = invoked w @ replicate k p"
proof (induction n arbitrary: a w)
  case 0
  show ?case by simp
next
  case (Suc n)
  let ?w2 = "emit (Invoke p) (emit (Print m) w)"
  show ?case
  proof (cases "esptool_main w (esptool_calls (emit (Print m) w)) p")
    case Succeeds
    then have "invoked (snd (esptool_loop (Suc n) a m p w)) = invoked w @ replicate 1 p"
      by (simp add: Let_def)
    then show ?thesis by (intro exI [of _ 1]) simp
  next
    case Aborts
    then have "invoked (snd (esptool_loop (Suc n) a m p w)) = invoked w @ replicate 1 p"
      by (simp add: Let_def)
    then show ?thesis by (intro exI [of _ 1]) simp
  next
    case (Fails err)
    show ?thesis
    proof (cases "a + 1 = 3")
      case True
      with Fails have "invoked (snd (esptool_loop (Suc n) a m p w)) = invoked w @ replicate 1 p"
        by (simp add: Let_def)
      then show ?thesis by (intro exI [of _ 1]) simp
    next
      case False
      let ?w' = "emit (Sleep 5) (emit (Print ''Waiting 5 seconds and trying again...'') (emit (Print err) ?w2))"
      from Suc.IH [of "a + 1" ?w'] obtain k where
        k: "k \<le> n" "invoked (snd (esptool_loop n (a + 1) m p ?w')) = invoked ?w' @ replicate k p"
        by blast
      from Fails False have "esptool_loop (Suc n) a m p w = esptool_loop n (a + 1) m p ?w'"
        by (simp add: Let_def)
      with k have "invoked (snd (esptool_loop (Suc n) a m p w)) = invoked w @ replicate (Suc k) p"
        by (simp add: replicate_append_same)
      with k(1) show ?thesis by (intro exI [of _ "Suc k"]) simp
    qed
  qed
qed


lemma execute_invoked:
  "\<exists>k. 0 < k \<and> k \<le> 3 \<and>
       invoked (snd (execute_esptool_command m p w)) = invoked w @ replicate k p"
  using esptool_loop_invoked [of 3 0 m p w]
  by (auto simp: execute_esptool_command_def)

lemma flashtheboard_invoked:
  "\<exists>k j. 0 < k \<and> k \<le> 3 \<and> j \<le> 3 \<and>
       invoked (snd (flashtheboard ep fp w)) =
         invoked w @ replicate k [Str ''erase_flash''] @ replicate j fp"
proof -
  obtain r w1 where e: "erase_esp32 w = (r, w1)" by (cases "erase_esp32 w")
  from execute_invoked [of "''Erasing firmware...''" "[Str ''erase_flash'']" w] e
  obtain k where k: "0 < k" "k \<le> 3" "invoked w1 = invoked w @ replicate k [Str ''erase_flash'']"
    by (auto simp: erase_esp32_def)
  show ?thesis
  proof (cases r)
    case (Inl err)
    with e k have "invoked (snd (flashtheboard ep fp w)) =
        invoked w @ replicate k [Str ''erase_flash''] @ replicate 0 fp"
      by (simp add: flashtheboard_def)
    with k show ?thesis by blast
  next
    case (Inr u)
    let ?msg = "''Flashing '' @ py_str (selectedfw w1) @ '' on '' @ py_str (selectedboard w1)"
    from execute_invoked [of ?msg fp w1]
    obtain j where j: "j \<le> 3"
      "invoked (snd (execute_esptool_command ?msg fp w1)) = invoked w1 @ replicate j fp"
      by blast
    from Inr e have "flashtheboard ep fp w = execute_esptool_command ?msg fp w1"
      by (simp add: flashtheboard_def)
    with j k have "invoked (snd (flashtheboard ep fp w)) =
        invoked w @ replicate k [Str ''erase_flash''] @ replicate j fp"
      by simp
    with j k show ?thesis by blast
  qed
qed

lemma erase_not_write: "\<not> write_invocation [Str ''erase_flash'']"
  by (simp add: write_invocation_def)

lemma write_flashparams: "write_invocation (flashparams_of w t)"
  by (simp add: write_invocation_def flashparams_of_def)

lemma erase_precedes_write_append:
  "erase_precedes_write xs \<Longrightarrow> erase_precedes_write ys \<Longrightarrow> erase_precedes_write (xs @ ys)"
  by (induction xs) auto

lemma erase_precedes_write_erase: "0 < k \<Longrightarrow> erase_precedes_write (replicate k [Str ''erase_flash''] @ ys)"
  by (cases k) simp_all

lemma session_ok_erase:
  "session_ok xs \<Longrightarrow> session_ok (xs @ replicate k [Str ''erase_flash''])"
  unfolding session_ok_def
  by (auto simp: erase_precedes_write_append list_all_iff)
     (induction k, simp_all add: erase_precedes_write_append)

lemma session_ok_erase_write:
  "session_ok xs \<Longrightarrow> 0 < k \<Longrightarrow> write_invocation fp \<Longrightarrow>
     session_ok (xs @ replicate k [Str ''erase_flash''] @ replicate j fp)"
  unfolding session_ok_def
  by (auto simp: erase_precedes_write_append erase_precedes_write_erase list_all_iff)

lemma session_ok_erase_esp32: "session_ok (invoked w) \<Longrightarrow> session_ok (invoked (snd (erase_esp32 w)))"
  using execute_invoked [of "''Erasing firmware...''" "[Str ''erase_flash'']" w]
  by (auto simp: erase_esp32_def session_ok_erase)

lemma session_ok_flashtheboard:
  "session_ok (invoked w) \<Longrightarrow> session_ok (invoked (snd (flashtheboard ep (flashparams_of w t) w)))"
  using flashtheboard_invoked [of ep "flashparams_of w t" w]
  by (auto simp: session_ok_erase_write write_flashparams)

declare choose_fw.simps [simp del] flash_firmware.simps [simp del]
  checkforserialport.simps [simp del] update_option.simps [simp del]

lemma session_invariant:
  "choose_fw n w = Some (r, w') \<Longrightarrow> session_ok (invoked w) \<Longrightarrow> session_ok (invoked w')"
  "flash_firmware n w = Some (r, w') \<Longrightarrow> session_ok (invoked w) \<Longrightarrow> session_ok (invoked w')"
  "checkforserialport n w = Some (r, w') \<Longrightarrow> session_ok (invoked w) \<Longrightarrow> session_ok (invoked w')"
  "update_option n w = Some (r, w') \<Longrightarrow> session_ok (invoked w) \<Longrightarrow> session_ok (invoked w')"
proof (induction n w and n w and n w and n w arbitrary: r w' and r w' and r w' and r w'
       rule: choose_fw_flash_firmware_checkforserialport_update_option.induct)
  case (1 w)
  then show ?case by (simp add: choose_fw.simps)
next
  case (2 n w)
  show ?case
  proof (cases "fwchoice w")
    case (Some c)
    with "2.prems"(1) have "flash_firmware n (announce_preselect c w) = Some (r, w')"
      by (simp add: choose_fw.simps)
    from "2.IH"(2) [OF Some this] "2.prems"(2) show ?thesis by simp
  next
    case None
    obtain r1 w1 where a: "ask_choice w = (r1, w1)" by (cases "ask_choice w")
    then have i: "invoked w1 = invoked w" using invoked_ask_choice [of w] by simp
    show ?thesis
    proof (cases r1)
      case (Inl e)
      with None a "2.prems"(1) have "w' = w1" by (simp add: choose_fw.simps)
      with i "2.prems"(2) show ?thesis by simp
    next
      case (Inr u)
      with None a "2.prems"(1) have "flash_firmware n w1 = Some (r, w')" by (simp add: choose_fw.simps)
      from "2.IH"(1) [OF None a [symmetric] Inr this] i "2.prems"(2) show ?thesis by simp
    qed
  qed
next
  case (3 n w)
  show ?case
  proof (cases "lookup_option w")
    case None
    with "3.prems" show ?thesis by (auto simp: flash_firmware.simps)
  next
    case (Some option)
    show ?thesis
    proof (cases "unpack9 option")
      case (Inl e)
      with Some "3.prems" show ?thesis by (auto simp: flash_firmware.simps)
    next
      case (Inr t)
      define w1 where "w1 = w\<lparr>selectedfw := slot_selectedfw t, selectedboard := slot_selectedboard t\<rparr>"
      have ok1: "session_ok (invoked w1)" using "3.prems"(2) by (simp add: w1_def)
      consider (erase) "fwchoice w1 = Some 16"
        | (update) "fwchoice w1 \<noteq> Some 16" "fwchoice w1 = Some 17"
        | (quit) "fwchoice w1 \<noteq> Some 16" "fwchoice w1 \<noteq> Some 17" "fwchoice w1 = Some 18"
        | (flash) "fwchoice w1 \<noteq> Some 16" "fwchoice w1 \<noteq> Some 17" "fwchoice w1 \<noteq> Some 18"
        by blast
      then show ?thesis
      proof cases
        case erase
        with Some Inr "3.prems"(1) have "erase_esp32 w1 = (r, w')"
          by (simp add: flash_firmware.simps w1_def)
        with session_ok_erase_esp32 [OF ok1] show ?thesis by simp
      next
        case update
        with Some Inr "3.prems"(1) have "update_option n w1 = Some (r, w')"
          by (simp add: flash_firmware.simps w1_def)
        from "3.IH"(1) [OF Some Inr w1_def update this ok1] show ?thesis .
      next
        case quit
        with Some Inr "3.prems"(1) have "w' = emit (Print ''Exiting!'') w1"
          by (auto simp: flash_firmware.simps w1_def)
        with ok1 show ?thesis by simp
      next
        case flash
        show ?thesis
        proof (cases "checkforserialport n w1")
          case None
          with flash Some Inr "3.prems"(1) show ?thesis
            by (simp add: flash_firmware.simps w1_def)
        next
          case (Some res)
          obtain r2 w2 where res: "res = (r2, w2)" by (cases res)
          from "3.IH"(2) [OF \<open>lookup_option w = Some option\<close> Inr w1_def flash Some [unfolded res] ok1]
          have ok2: "session_ok (invoked w2)" .
          show ?thesis
          proof (cases r2)
            case (Inl e)
            with flash Some res \<open>lookup_option w = Some option\<close> Inr "3.prems"(1) have "w' = w2"
              by (simp add: flash_firmware.simps w1_def)
            with ok2 show ?thesis by simp
          next
            case (Inr u)
            with flash Some res \<open>lookup_option w = Some option\<close> \<open>unpack9 option = Inr t\<close> "3.prems"(1)
            have "flashtheboard (eraseparams_of w2) (flashparams_of w2 t) w2 = (r, w')"
              by (simp add: flash_firmware.simps w1_def)
            with session_ok_flashtheboard [OF ok2, of "eraseparams_of w2" t] show ?thesis by simp
          qed
        qed
      qed
    qed
  qed
next
  case (4 n w)
  show ?case
  proof (cases "serialport w \<noteq> []")
    case True
    with "4.prems" show ?thesis by (auto simp: checkforserialport.simps)
  next
    case False
    obtain dev w1 where sc: "scan_for_port w = (dev, w1)" by (cases "scan_for_port w")
    then have i1: "invoked w1 = invoked w" using invoked_scan_for_port [of w] by simp
    show ?thesis
    proof (cases "serialport w1 = []")
      case nodev: True
      define w2 where "w2 = no_device_notice w1"
      have ok2: "session_ok (invoked w2)" using "4.prems"(2) i1 by (simp add: w2_def)
      show ?thesis
      proof (cases "fwchoicepreselect w2")
        case None
        with False sc nodev "4.prems"(1) have "w' = w2"
          by (simp add: checkforserialport.simps w2_def)
        with ok2 show ?thesis by simp
      next
        case (Some b)
        show ?thesis
        proof (cases b)
          case True
          with Some False sc nodev "4.prems"(1) have "w' = w2"
            by (simp add: checkforserialport.simps w2_def)
          with ok2 show ?thesis by simp
        next
          case nb: False
          show ?thesis
          proof (cases "choose_fw n w2")
            case None
            with nb Some False sc nodev "4.prems"(1) show ?thesis
              by (simp add: checkforserialport.simps w2_def)
          next
            case inner: (Some res)
            obtain r3 w3 where res: "res = (r3, w3)" by (cases res)
            from nb have bf: "b = False" by simp
            from "4.IH" [OF False sc [symmetric] nodev w2_def Some bf inner [unfolded res] ok2]
            have ok3: "session_ok (invoked w3)" .
            from nb Some False sc nodev inner res "4.prems"(1)
            have "w' = w3 \<or> w' = snd (finish_check dev w3)"
              by (auto simp: checkforserialport.simps w2_def split: sum.splits)
            with ok3 show ?thesis by auto
          qed
        qed
      qed
    next
      case found: False
      with False sc "4.prems"(1) have "w' = snd (finish_check dev w1)"
        by (auto simp: checkforserialport.simps)
      with i1 "4.prems"(2) show ?thesis by simp
    qed
  qed
next
  case (5 n w)
  obtain r1 w1 where p: "and_then delete_files (and_then refresh_repo prereqcheck) w = (r1, w1)"
    by (cases "and_then delete_files (and_then refresh_repo prereqcheck) w")
  with quietD [OF quiet_update_prefix, of w] have i1: "invoked w1 = invoked w" by simp
  show ?case
  proof (cases r1)
    case (Inl e)
    with p "5.prems"(1) have "w' = w1" by (simp add: update_option.simps)
    with i1 "5.prems"(2) show ?thesis by simp
  next
    case (Inr u)
    with p "5.prems"(1) have "choose_fw n w1 = Some (r, w')" by (simp add: update_option.simps)
    from "5.IH" [OF p [symmetric] Inr this] i1 "5.prems"(2) show ?thesis by simp
  qed
qed

lemma quiet_result: "quiet f \<Longrightarrow> f w = (r, w') \<Longrightarrow> invoked w' = invoked w"
  using quietD [of f w] by simp

lemma easy_install_session_ok:
  assumes "easy_install n port_arg preselect w = Some (r, w')" and "invoked w = []"
  shows "session_ok (invoked w')"
proof -
  let ?w0 = "w\<lparr>serialport := port_arg, fwchoice := preselect\<rparr>"
  obtain r1 w1 where p: "prereqcheck ?w0 = (r1, w1)" by (cases "prereqcheck ?w0")
  from quiet_result [OF quiet_prereqcheck p] assms(2) have i1: "invoked w1 = []" by simp
  then have ok1: "session_ok (invoked w1)" by (simp add: session_ok_def)
  show ?thesis
  proof (cases r1)
    case (Inl e)
    with p assms(1) have "w' = w1" by (simp add: easy_install_def)
    with ok1 show ?thesis by simp
  next
    case (Inr u)
    with p assms(1) have "choose_fw n w1 = Some (r, w')" by (simp add: easy_install_def)
    from session_invariant(1) [OF this ok1] show ?thesis .
  qed
qed

lemma flash_session_run:
  "map_option (\<lambda>x. (fst x, invoked (snd x), esp32marauderfw (snd x)))
     (easy_install 2 ''COM3'' (Some 1)
        (fresh_flasher cached_fs (\<lambda>n ps. Succeeds) (\<lambda>n. []) (\<lambda>n. None)))
   = Some (Inr (), [[Str ''erase_flash''],
       [Str ''-p'', Str ''COM3'', Str ''-b'', Str ''115200'', Str ''-c'', Str ''ESP32-S2'',
        Str ''--before'', Str ''default_reset'', Str ''-a'', Str ''no_reset'', Str ''write_flash'',
        Str ''--flash_mode'', Str ''dio'', Str ''--flash_freq'', Str ''80m'', Str ''--flash_size'',
        Str ''4MB'', Str ''0x1000'', Str ''Marauder/bootloader.bin'', Str ''0x8000'',
        Str ''Marauder/partitions.bin'', Str ''0x10000'', Str ''esp32marauderfw'']],
       Some ''ESP32Marauder/releases/esp32_marauder_v1_1_flipper.bin'')"
  by code_simp

lemma erase_session_run:
  "map_option (\<lambda>x. (fst x, invoked (snd x)))
     (easy_install 2 ''COM3'' (Some 16)
        (fresh_flasher cached_fs (\<lambda>n ps. Succeeds) (\<lambda>n. []) (\<lambda>n. None)))
   = Some (Inr (), [[Str ''erase_flash'']])"
  by code_simp

lemma eraseparams_not_sent:
  "list_all (\<lambda>ps. ps = [Str ''erase_flash''] \<or> write_invocation ps) xs \<Longrightarrow> eraseparams_of w \<notin> set xs"
  by (auto simp: list_all_iff eraseparams_of_def write_invocation_def)

lemma lookup_invalid: "c < 1 \<or> 18 < c \<Longrightarrow> map_of flash_options c = None"
  by (auto simp: flash_options_def)

lemma prompts_emit_PrintMenu [simp]:
  "filter is_prompt (trace (emit PrintMenu w)) = filter is_prompt (trace w)"
  by simp

lemma scan_ports_last:
  "scan_ports v ports acc =
     (if matching_ports v ports = [] then acc
      else (device (last (matching_ports v ports)), Some v))"
  by (induction ports arbitrary: acc) (simp_all add: matching_ports_def)

lemma scan_vids_last:
  "scan_vids vs ports acc =
     (case filter (\<lambda>v. matching_ports v ports \<noteq> []) vs of
        [] \<Rightarrow> acc
      | m # ms \<Rightarrow> (device (last (matching_ports (last (m # ms)) ports)), Some (last (m # ms))))"
proof (induction vs arbitrary: acc)
  case Nil
  show ?case by simp
next
  case (Cons v vs)
  show ?case
    by (simp add: Cons.IH scan_ports_last split: list.splits)
qed

lemma preselected_no_device_exits:
  assumes "serialport w = []" "fwchoicepreselect w = Some True"
    and "\<forall>v \<in> set vids. matching_ports v (comports w (length (filter is_comports (trace w)))) = []"
  shows "checkforserialport n w =
           Some (Inl SystemExit,
                 w\<lparr>trace := trace w @
                     [Print ''Checking for serial port...'', Comports,
                      Print ''No ESP32 device was detected!'',
                      Print ''Please plug in a Flipper WiFi devboard or an ESP32 chip and try again'']\<rparr>)"
proof -
  let ?ports = "comports w (length (filter is_comports (trace w)))"
  from assms(3) have "filter (\<lambda>v. matching_ports v ?ports \<noteq> []) vids = []"
    by (simp add: filter_empty_conv)
  then have "scan_vids vids ?ports ([], None) = ([], None)"
    by (simp add: scan_vids_last)
  with assms(1,2) show ?thesis
    by (simp add: checkforserialport.simps scan_for_port_def no_device_notice_def Let_def emit_def)
qed

lemma offsets_of_table:
  "offset_value (Str ''0x1000'') = Some 4096"
  "offset_value (Str ''0x8000'') = Some 32768"
  "offset_value (Str ''0x10000'') = Some 65536"
  by (simp_all add: hex_digit_def)

lemma nine_slot_profiles_ascending:
  "list_all profile_ascending [1, 2, 3, 4, 5, 6, 8, 9, 10, 11, 12, 13]"
  by (simp add: profile_ascending_def flash_options_def unpack9_def hex_digit_def)

lemma fwbin_slots_are_literals:
  "map (\<lambda>c. map_option last (map_of flash_options c)) [1, 4, 5, 6, 7, 14, 15] =
     [Some (Str ''esp32marauderfw''), Some (Str ''espoldhardwarefw''), Some (Str ''esp32minifw''),
      Some (Str ''espnewhardwarefw''), Some (Str ''esp32s3fw''), Some (Str ''evilportalfwwroom''),
      Some (Str ''evilportalfws2'')]"
  by (simp add: flash_options_def)

lemma flashparams_last: "last (flashparams_of w t) = fwbin t"
  by (simp add: flashparams_of_def)

lemma kind_of_delete_entry: "kind_of (delete_entry p f) q = (if q = p then None else kind_of f q)"
  by (induction f) (auto simp: delete_entry_def kind_of_def)

lemma map_of_touch:
  "map_of (touch x t f) q =
     map_option (\<lambda>(k, c, ch). if q = x then (k, c, t) else (k, c, ch)) (map_of f q)"
  by (induction f) (auto simp: touch_def split: if_splits)

lemma kind_of_touch [simp]: "kind_of (touch x t f) q = kind_of f q"
  by (cases "map_of f q") (auto simp: kind_of_def map_of_touch)

lemma kind_of_touch_parent [simp]: "kind_of (touch_parent p t f) q = kind_of f q"
  by (simp add: touch_parent_def split: list.splits)

lemma shrunk_refl: "shrunk f f"
  by (simp add: shrunk_def)

lemma shrunk_trans: "shrunk f g \<Longrightarrow> shrunk g h \<Longrightarrow> shrunk f h"
  unfolding shrunk_def
proof
  fix q
  assume a: "\<forall>q. kind_of g q = kind_of f q \<or>
          (kind_of g q = None \<and> (kind_of f q = Some File \<or> kind_of f q = Some Dangling))"
    and b: "\<forall>q. kind_of h q = kind_of g q \<or>
          (kind_of h q = None \<and> (kind_of g q = Some File \<or> kind_of g q = Some Dangling))"
  from a [rule_format, of q] b [rule_format, of q]
  show "kind_of h q = kind_of f q \<or>
          (kind_of h q = None \<and> (kind_of f q = Some File \<or> kind_of f q = Some Dangling))"
    by auto
qed

lemma shrunk_dir: "shrunk f f' \<Longrightarrow> kind_of f q = Some Dir \<longleftrightarrow> kind_of f' q = Some Dir"
  unfolding shrunk_def by (metis kind.distinct(1,5) option.distinct(1) option.inject)

lemma walk_dirs:
  "(\<And>x. kind_of f x = Some Dir \<Longrightarrow> kind_of f' x = Some Dir) \<Longrightarrow>
     walk qs p f = None \<Longrightarrow> walk qs p f' = None"
  by (induction qs) (auto split: option.splits kind.splits)

lemma shrunk_reachable: "shrunk f f' \<Longrightarrow> reachable f p \<longleftrightarrow> reachable f' p"
  unfolding reachable_def
  using walk_dirs [of f f'] walk_dirs [of f' f] shrunk_dir [of f f'] by blast

lemma shrunk_walk_enoent:
  "shrunk f f' \<Longrightarrow> walk qs p f = Some (FileNotFoundError p) \<Longrightarrow>
     walk qs p f' = Some (FileNotFoundError p)"
proof (induction qs)
  case Nil
  then show ?case by simp
next
  case (Cons q qs)
  from Cons.prems(1) have
    "kind_of f' q = kind_of f q \<or>
       (kind_of f' q = None \<and> (kind_of f q = Some File \<or> kind_of f q = Some Dangling))"
    by (simp add: shrunk_def)
  with Cons show ?case
    by (auto split: option.splits kind.splits)
qed

lemma lstat_kind: "lstat f p = Inr (k, c, ch) \<Longrightarrow> reachable f p \<and> kind_of f p = Some k"
  by (auto simp: lstat_def reachable_def kind_of_def split: option.splits)

lemma lstat_found:
  "reachable f p \<Longrightarrow> kind_of f p = Some k \<Longrightarrow> \<exists>c ch. lstat f p = Inr (k, c, ch)"
  by (auto simp: lstat_def reachable_def kind_of_def split: option.splits)

lemma shrunk_enoent:
  assumes "shrunk f f'" "lstat f p = Inl (FileNotFoundError p)"
  shows "lstat f' p = Inl (FileNotFoundError p)"
proof (cases "walk (parent_paths p) p f")
  case None
  with assms(2) have "map_of f p = None" by (simp add: lstat_def split: option.splits)
  then have "kind_of f p = None" by (simp add: kind_of_def)
  with assms(1) have "kind_of f' p = None" unfolding shrunk_def by (metis option.distinct(1))
  then have m: "map_of f' p = None" by (simp add: kind_of_def)
  from None assms(1) have "walk (parent_paths p) p f' = None"
    using shrunk_reachable [of f f' p] by (simp add: reachable_def)
  with m show ?thesis by (simp add: lstat_def)
next
  case (Some e)
  with assms(2) have "e = FileNotFoundError p" by (simp add: lstat_def)
  with Some shrunk_walk_enoent [OF assms(1)] have "walk (parent_paths p) p f' = Some (FileNotFoundError p)"
    by simp
  then show ?thesis by (simp add: lstat_def)
qed

lemma shrunk_is_directory: "shrunk f f' \<Longrightarrow> is_directory f p \<longleftrightarrow> is_directory f' p"
proof -
  assume s: "shrunk f f'"
  have d: "is_directory g p \<longleftrightarrow> reachable g p \<and> kind_of g p = Some Dir" for g
    by (auto simp: is_directory_def lstat_def reachable_def kind_of_def
             split: option.splits sum.splits kind.splits)
  from s shrunk_reachable [of f f' p] shrunk_dir [of f f' p] show ?thesis by (simp add: d)
qed

lemma os_remove_shrinks: "os_remove p t f = Inr f' \<Longrightarrow> shrunk f f'"
proof -
  assume a: "os_remove p t f = Inr f'"
  then obtain k c ch where l: "lstat f p = Inr (k, c, ch)" "k \<noteq> Dir"
    and f': "f' = touch_parent p t (delete_entry p f)"
    by (auto simp: os_remove_def split: sum.splits kind.splits)
  from lstat_kind [OF l(1)] l(2) have "kind_of f p = Some File \<or> kind_of f p = Some Dangling"
    by (cases k) auto
  with f' show ?thesis by (simp add: shrunk_def kind_of_delete_entry)
qed

lemma fs_step_remove:
  "fs_step (os_remove p) w = (r, w') \<Longrightarrow> trace w' = trace w \<and> shrunk (fs w) (fs w')"
  by (auto simp: fs_step_def shrunk_refl split: sum.splits dest: os_remove_shrinks)

lemma remove_all_shrinks:
  "remove_all ps w = (r, w') \<Longrightarrow> trace w' = trace w \<and> shrunk (fs w) (fs w')"
proof (induction ps arbitrary: w)
  case Nil
  then show ?case by (simp add: shrunk_refl)
next
  case (Cons p ps)
  obtain r1 w1 where s: "fs_step (os_remove p) w = (r1, w1)"
    by (cases "fs_step (os_remove p) w")
  note one = fs_step_remove [OF s]
  show ?case
  proof (cases r1)
    case (Inl e)
    with s Cons.prems have "w' = w1" by (simp add: and_then_def)
    with one show ?thesis by simp
  next
    case (Inr u)
    with s Cons.prems have "remove_all ps w1 = (r, w')" by (simp add: and_then_def)
    from Cons.IH [OF this] one show ?thesis by (auto intro: shrunk_trans)
  qed
qed

lemma remove_all_files:
  "distinct ps \<Longrightarrow> \<forall>q \<in> set ps. reachable (fs w) q \<and> kind_of (fs w) q = Some File \<Longrightarrow>
     \<exists>w'. remove_all ps w = (Inr (), w')"
proof (induction ps arbitrary: w)
  case Nil
  show ?case by simp
next
  case (Cons p ps)
  let ?t = "now w (length (trace w))"
  let ?f1 = "touch_parent p ?t (delete_entry p (fs w))"
  from Cons.prems(2) lstat_found [of "fs w" p File]
  obtain c ch where "lstat (fs w) p = Inr (File, c, ch)" by auto
  then have s: "fs_step (os_remove p) w = (Inr (), w\<lparr>fs := ?f1\<rparr>)"
    by (simp add: fs_step_def os_remove_def)
  then have sh: "shrunk (fs w) ?f1" using fs_step_remove [of p w "Inr ()" "w\<lparr>fs := ?f1\<rparr>"] by simp
  have "\<forall>q \<in> set ps. reachable ?f1 q \<and> kind_of ?f1 q = Some File"
  proof
    fix q assume q: "q \<in> set ps"
    with Cons.prems(1) have "q \<noteq> p" by auto
    with q Cons.prems(2) have "kind_of ?f1 q = Some File" by (simp add: kind_of_delete_entry)
    moreover from q Cons.prems(2) shrunk_reachable [OF sh, of q] have "reachable ?f1 q" by simp
    ultimately show "reachable ?f1 q \<and> kind_of ?f1 q = Some File" by simp
  qed
  with Cons.IH [of "w\<lparr>fs := ?f1\<rparr>"] Cons.prems(1)
  obtain w' where "remove_all ps (w\<lparr>fs := ?f1\<rparr>) = (Inr (), w')" by auto
  with s show ?case by (simp add: and_then_def)
qed

lemma rglob_shrunk:
  assumes "shrunk f f'" "q \<in> set (rglob pat f')"
  shows "q \<in> set (rglob pat f) \<and> kind_of f' q = kind_of f q"
proof -
  from assms(2) have r: "reachable f' q" "rglob_path pat q" "q \<in> fst ` set f'"
    by (auto simp: rglob_def)
  from r(3) have k: "kind_of f' q \<noteq> None"
    by (simp add: kind_of_def map_of_eq_None_iff)
  with assms(1) have e: "kind_of f' q = kind_of f q" unfolding shrunk_def by metis
  with k have "kind_of f q \<noteq> None" by simp
  then have "map_of f q \<noteq> None" by (simp add: kind_of_def)
  then have "q \<in> fst ` set f" by (simp add: map_of_eq_None_iff)
  with r shrunk_reachable [OF assms(1), of q] e show ?thesis by (auto simp: rglob_def)
qed

lemma distinct_rglob: "distinct (rglob pat f)"
  by (simp add: rglob_def)

lemma rglob_reachable: "q \<in> set (rglob pat f) \<Longrightarrow> reachable f q"
  by (simp add: rglob_def)

text \<open>The two deletion loops, as the first two steps of \<open>delete_files\<close> run them.\<close>

lemma deletion_loops:
  assumes "and_then (\<lambda>w. remove_all (rglob ''ESP32Marauder/*/*'' (fs w)) w)
             (\<lambda>w. remove_all (rglob ''EvilPortal/*'' (fs w)) w) w = (r, w')"
  shows "trace w' = trace w \<and> shrunk (fs w) (fs w') \<and> (files_only (fs w) \<longrightarrow> r = Inr ())"
proof -
  obtain r1 w1 where l1: "remove_all (rglob ''ESP32Marauder/*/*'' (fs w)) w = (r1, w1)"
    by (cases "remove_all (rglob ''ESP32Marauder/*/*'' (fs w)) w")
  note s1 = remove_all_shrinks [OF l1]
  show ?thesis
  proof (cases r1)
    case (Inl e)
    with l1 assms have eq: "w' = w1" "r = Inl e" by (simp_all add: and_then_def)
    have "\<not> files_only (fs w)"
    proof
      assume fo: "files_only (fs w)"
      then have "\<forall>q \<in> set (rglob ''ESP32Marauder/*/*'' (fs w)).
                   reachable (fs w) q \<and> kind_of (fs w) q = Some File"
        by (auto simp: files_only_def list_all_iff rglob_reachable)
      with remove_all_files [of "rglob ''ESP32Marauder/*/*'' (fs w)" w]
      obtain w'' where "remove_all (rglob ''ESP32Marauder/*/*'' (fs w)) w = (Inr (), w'')"
        by (auto simp: distinct_rglob)
      with l1 Inl show False by simp
    qed
    with eq s1 show ?thesis by simp
  next
    case (Inr u)
    with l1 assms have l2: "remove_all (rglob ''EvilPortal/*'' (fs w1)) w1 = (r, w')"
      by (simp add: and_then_def)
    note s2 = remove_all_shrinks [OF l2]
    have "r = Inr ()" if fo: "files_only (fs w)"
    proof -
      have "\<forall>q \<in> set (rglob ''EvilPortal/*'' (fs w1)).
              reachable (fs w1) q \<and> kind_of (fs w1) q = Some File"
      proof
        fix q assume q: "q \<in> set (rglob ''EvilPortal/*'' (fs w1))"
        from rglob_shrunk [OF _ q, of "fs w"] s1
        have "q \<in> set (rglob ''EvilPortal/*'' (fs w))" "kind_of (fs w1) q = kind_of (fs w) q"
          by simp_all
        with fo have "kind_of (fs w1) q = Some File"
          by (auto simp: files_only_def list_all_iff)
        with q show "reachable (fs w1) q \<and> kind_of (fs w1) q = Some File"
          by (simp add: rglob_reachable)
      qed
      with remove_all_files [of "rglob ''EvilPortal/*'' (fs w1)" w1]
      obtain w'' where "remove_all (rglob ''EvilPortal/*'' (fs w1)) w1 = (Inr (), w'')"
        by (auto simp: distinct_rglob)
      with l2 show ?thesis by simp
    qed
    with s1 s2 show ?thesis by (auto intro: shrunk_trans)
  qed
qed

lemma and_then_assoc: "and_then (and_then f g) h = and_then f (and_then g h)"
  by (rule ext) (simp add: and_then_def split: prod.splits sum.splits)

lemma rmdir_not_directory:
  "\<not> is_directory (fs w) p \<Longrightarrow> \<exists>e. fs_step (os_rmdir p) w = (Inl e, w)"
  by (auto simp: fs_step_def os_rmdir_def is_directory_def split: sum.splits kind.splits)

lemma rmdir_enoent:
  "lstat (fs w) p = Inl (FileNotFoundError p) \<Longrightarrow>
     fs_step (os_rmdir p) w = (Inl (FileNotFoundError p), w)"
  by (simp add: fs_step_def os_rmdir_def)

lemma enoent_not_directory: "lstat f p = Inl e \<Longrightarrow> \<not> is_directory f p"
  by (simp add: is_directory_def)

lemma leftover_facts:
  "\<not> is_directory leftover_fs ''ESP32Marauder/releases''"
  "lstat leftover_fs ''ESP32Marauder/releases'' = Inl (FileNotFoundError ''ESP32Marauder/releases'')"
  "files_only leftover_fs"
  "rglob ''ESP32Marauder/*/*'' leftover_fs = [''ESP32Marauder/old/esp32_marauder_v0_9_flipper.bin'']"
  "rglob ''EvilPortal/*'' leftover_fs = [''EvilPortal/EvilPortalS2.bin'']"
  by code_simp+

lemma py_max_from_greatest:
  "k m = Inr km \<Longrightarrow> py_max_from k m km xs = Inr r \<Longrightarrow>
     r \<in> set (m # xs) \<and>
     (\<exists>kr. k r = Inr kr \<and> km \<le> kr \<and> (\<forall>q \<in> set xs. \<exists>kq. k q = Inr kq \<and> kq \<le> kr))"
proof (induction xs arbitrary: m km)
  case Nil
  then show ?case by simp
next
  case (Cons x xs)
  from Cons.prems(2) obtain kx where kx: "k x = Inr kx" by (auto split: sum.splits)
  show ?case
  proof (cases "km < kx")
    case True
    with kx Cons.prems(2) have "py_max_from k x kx xs = Inr r" by simp
    from Cons.IH [OF kx this] True kx show ?thesis by auto
  next
    case False
    with kx Cons.prems(2) have "py_max_from k m km xs = Inr r" by simp
    from Cons.IH [OF Cons.prems(1) this] False kx show ?thesis by auto
  qed
qed

lemma py_max_greatest:
  "py_max k x xs = Inr r \<Longrightarrow>
     r \<in> set (x # xs) \<and> (\<exists>kr. k r = Inr kr \<and> (\<forall>q \<in> set (x # xs). \<exists>kq. k q = Inr kq \<and> kq \<le> kr))"
proof -
  assume a: "py_max k x xs = Inr r"
  then obtain kx where kx: "k x = Inr kx" by (auto simp: py_max_def split: sum.splits)
  with a have "py_max_from k x kx xs = Inr r" by (simp add: py_max_def)
  from py_max_from_greatest [OF kx this] kx show ?thesis by auto
qed

lemma latest_firmware_none:
  "glob pattern (fs w) = [] \<Longrightarrow>
     get_latest_firmware pattern w =
       (Inr None, emit (Print (''No firmware files found for pattern: '' @ pattern)) w)"
  by (simp add: get_latest_firmware_def)

lemma latest_firmware_fs: "fs (snd (get_latest_firmware pattern w)) = fs w"
  by (simp add: get_latest_firmware_def split: list.splits sum.splits)

lemma latest_firmware_greatest:
  assumes "fst (get_latest_firmware pattern w) = Inr (Some p)"
  shows "p \<in> set (glob pattern (fs w)) \<and>
         (\<exists>tp. getctime (posix w) (fs w) p = Inr tp \<and>
            (\<forall>q \<in> set (glob pattern (fs w)). \<exists>tq. getctime (posix w) (fs w) q = Inr tq \<and> tq \<le> tp))"
proof (cases "glob pattern (fs w)")
  case Nil
  with assms show ?thesis by (simp add: get_latest_firmware_def)
next
  case (Cons x xs)
  with assms have "py_max (getctime (posix w) (fs w)) x xs = Inr p"
    by (auto simp: get_latest_firmware_def split: sum.splits)
  from py_max_greatest [OF this] Cons show ?thesis by simp
qed

lemma getctime_creation: "getctime False f p = Inr t \<Longrightarrow> created f p = Some t"
  by (auto simp: getctime_def lstat_def created_def split: sum.splits option.splits kind.splits)

lemma two_boards_matches:
  "filter (\<lambda>v. matching_ports v two_boards \<noteq> []) [''303A'', ''10C4'', ''1A86'', ''0483''] =
     [''303A'', ''0483'']"
  "matching_ports ''0483'' two_boards = [\<lparr>device = ''/dev/ttyUSB0'', hwid = ''USB VID:PID=0483:5740 SER=2''\<rparr>]"
  by code_simp+

section \<open>The retry policy\<close>

text \<open>
  Claim C3. For any message and parameter list, so for the erase and for the write:
  when the flasher fails on the next two calls and succeeds on the one after,
  \<open>execute_esptool_command\<close> calls it three times, prints each error, waits 5 after each
  of the two failures and returns; when the flasher fails on every call, it calls it
  three times, prints each error, waits 5 after the first two failures, reports the
  board and exits.
\<close>

theorem retry_policy:
  "(esptool_main w (esptool_calls w) params = Fails e1 \<and>
    esptool_main w (esptool_calls w + 1) params = Fails e2 \<and>
    esptool_main w (esptool_calls w + 2) params = Succeeds \<longrightarrow>
    execute_esptool_command message params w =
      (Inr (), w\<lparr>trace := trace w @
         [Print message, Invoke params, Print e1,
          Print ''Waiting 5 seconds and trying again...'', Sleep 5,
          Print message, Invoke params, Print e2,
          Print ''Waiting 5 seconds and trying again...'', Sleep 5,
          Print message, Invoke params,
          Print (py_str (selectedboard w) @ '' has been flashed with '' @ py_str (selectedfw w))]\<rparr>))
   \<and>
   ((\<forall>k. esptool_main w k params = Fails (err k)) \<longrightarrow>
    execute_esptool_command message params w =
      (Inl SystemExit, w\<lparr>trace := trace w @
         [Print message, Invoke params, Print (err (esptool_calls w)),
          Print ''Waiting 5 seconds and trying again...'', Sleep 5,
          Print message, Invoke params, Print (err (esptool_calls w + 1)),
          Print ''Waiting 5 seconds and trying again...'', Sleep 5,
          Print message, Invoke params, Print (err (esptool_calls w + 2)),
          Print (''Could not complete the operation on '' @ py_str (selectedboard w))]\<rparr>))"
proof (intro conjI impI)
  assume "esptool_main w (esptool_calls w) params = Fails e1 \<and>
    esptool_main w (esptool_calls w + 1) params = Fails e2 \<and>
    esptool_main w (esptool_calls w + 2) params = Succeeds"
  then show "execute_esptool_command message params w =
      (Inr (), w\<lparr>trace := trace w @
         [Print message, Invoke params, Print e1,
          Print ''Waiting 5 seconds and trying again...'', Sleep 5,
          Print message, Invoke params, Print e2,
          Print ''Waiting 5 seconds and trying again...'', Sleep 5,
          Print message, Invoke params,
          Print (py_str (selectedboard w) @ '' has been flashed with '' @ py_str (selectedfw w))]\<rparr>)"
    by (simp add: execute_esptool_command_def eval_nat_numeral esptool_calls_def Let_def)
       (simp add: emit_def)
next
  assume "\<forall>k. esptool_main w k params = Fails (err k)"
  then show "execute_esptool_command message params w =
      (Inl SystemExit, w\<lparr>trace := trace w @
         [Print message, Invoke params, Print (err (esptool_calls w)),
          Print ''Waiting 5 seconds and trying again...'', Sleep 5,
          Print message, Invoke params, Print (err (esptool_calls w + 1)),
          Print ''Waiting 5 seconds and trying again...'', Sleep 5,
          Print message, Invoke params, Print (err (esptool_calls w + 2)),
          Print (''Could not complete the operation on '' @ py_str (selectedboard w))]\<rparr>)"
    by (simp add: execute_esptool_command_def eval_nat_numeral esptool_calls_def Let_def)
       (simp add: emit_def)
qed

theorem retry_policy_witness:
  "(let w = fresh_flasher [] (\<lambda>n ps. if n < 2 then Fails ''timeout'' else Succeeds) (\<lambda>n. []) (\<lambda>n. None);
        r = execute_esptool_command ''Erasing firmware...'' [Str ''erase_flash''] w
    in esptool_main w (esptool_calls w) [Str ''erase_flash''] = Fails ''timeout'' \<and>
       esptool_main w (esptool_calls w + 1) [Str ''erase_flash''] = Fails ''timeout'' \<and>
       esptool_main w (esptool_calls w + 2) [Str ''erase_flash''] = Succeeds \<and>
       fst r = Inr () \<and>
       invoked (snd r) = [[Str ''erase_flash''], [Str ''erase_flash''], [Str ''erase_flash'']])
   \<and>
   (let w = fresh_flasher [] (\<lambda>n ps. Fails ''timeout'') (\<lambda>n. []) (\<lambda>n. None);
        r = execute_esptool_command ''Erasing firmware...'' [Str ''erase_flash''] w
    in (\<forall>k. esptool_main w k [Str ''erase_flash''] = Fails ''timeout'') \<and>
       fst r = Inl SystemExit \<and>
       invoked (snd r) = [[Str ''erase_flash''], [Str ''erase_flash''], [Str ''erase_flash'']])"
  using retry_policy [of "fresh_flasher [] (\<lambda>n ps. if n < 2 then Fails ''timeout'' else Succeeds) (\<lambda>n. []) (\<lambda>n. None)"
                         "[Str ''erase_flash'']" "''timeout''" "''timeout''" "''Erasing firmware...''"]
        retry_policy [of "fresh_flasher [] (\<lambda>n ps. Fails ''timeout'') (\<lambda>n. []) (\<lambda>n. None)"
                         "[Str ''erase_flash'']" _ _ "''Erasing firmware...''" "\<lambda>k. ''timeout''"]
  by (simp add: fresh_flasher_def esptool_calls_def invoked_def Let_def)

section \<open>Erase before write\<close>

text \<open>
  Claim C9. \<open>flashtheboard\<close> calls the flasher with \<open>['erase_flash']\<close> at least once
  before it calls it with the write parameters, whatever the flasher answers; and in a
  whole run of the program, from \<open>EasyInstall\<close> on, no write is sent to the flasher
  before a full-flash erase has been sent.
\<close>

theorem erase_before_write:
  "(\<exists>k j. 0 < k \<and> invoked (snd (flashtheboard eraseparams flashparams w)) =
            invoked w @ replicate k [Str ''erase_flash''] @ replicate j flashparams)
   \<and> (easy_install n port_arg preselect w = Some (r, w') \<and> invoked w = [] \<longrightarrow>
        erase_precedes_write (invoked w'))"
proof (intro conjI impI)
  from flashtheboard_invoked [of eraseparams flashparams w]
  show "\<exists>k j. 0 < k \<and> invoked (snd (flashtheboard eraseparams flashparams w)) =
            invoked w @ replicate k [Str ''erase_flash''] @ replicate j flashparams"
    by blast
next
  assume "easy_install n port_arg preselect w = Some (r, w') \<and> invoked w = []"
  then have "session_ok (invoked w')" by (blast intro: easy_install_session_ok)
  then show "erase_precedes_write (invoked w')" by (simp add: session_ok_def)
qed

theorem erase_before_write_witness:
  "(let w = fresh_flasher cached_fs (\<lambda>n ps. Succeeds) (\<lambda>n. []) (\<lambda>n. None);
        res = the (easy_install 2 ''COM3'' (Some 1) w)
    in easy_install 2 ''COM3'' (Some 1) w = Some res \<and> invoked w = [] \<and>
       write_invocation (last (invoked (snd res))) \<and>
       erase_precedes_write (invoked (snd res)))"
proof -
  let ?w = "fresh_flasher cached_fs (\<lambda>n ps. Succeeds) (\<lambda>n. []) (\<lambda>n. None)"
  let ?res = "the (easy_install 2 ''COM3'' (Some 1) ?w)"
  have run: "easy_install 2 ''COM3'' (Some 1) ?w = Some (fst ?res, snd ?res)"
    using flash_session_run by (cases "easy_install 2 ''COM3'' (Some 1) ?w") (auto simp: prod_eq_iff)
  have start: "invoked ?w = []" by (simp add: fresh_flasher_def invoked_def)
  have wr: "write_invocation (last (invoked (snd ?res)))"
    using flash_session_run
    by (cases "easy_install 2 ''COM3'' (Some 1) ?w") (auto simp: write_invocation_def)
  from erase_before_write [of _ _ ?w 2 "''COM3''" "Some 1" "fst ?res" "snd ?res"] run start
  have "erase_precedes_write (invoked (snd ?res))" by blast
  with run start wr show ?thesis by (simp add: Let_def)
qed

section \<open>The parameter list of the erase\<close>

text \<open>
  Claim C10. \<open>flashtheboard\<close> does not depend on its argument \<open>eraseparams\<close>; every call
  of the flasher that \<open>erase_esp32\<close> makes has the parameter list \<open>['erase_flash']\<close>;
  and in a whole run of the program every call of the flasher has either exactly that
  list or the list of a write, so the list with the serial port and the baud rate that
  \<open>flash_firmware\<close> builds for the erase is never sent.
\<close>

theorem eraseparams_unused:
  "flashtheboard eraseparams flashparams w = flashtheboard eraseparams' flashparams w
   \<and> (\<exists>k. 0 < k \<and> k \<le> 3 \<and>
          invoked (snd (erase_esp32 w)) = invoked w @ replicate k [Str ''erase_flash''])
   \<and> (easy_install n port_arg preselect w = Some (r, w') \<and> invoked w = [] \<longrightarrow>
        list_all (\<lambda>ps. ps = [Str ''erase_flash''] \<or> write_invocation ps) (invoked w') \<and>
        eraseparams_of w'' \<notin> set (invoked w'))"
proof (intro conjI impI)
  show "flashtheboard eraseparams flashparams w = flashtheboard eraseparams' flashparams w"
    by (simp add: flashtheboard_def)
next
  from execute_invoked [of "''Erasing firmware...''" "[Str ''erase_flash'']" w]
  show "\<exists>k. 0 < k \<and> k \<le> 3 \<and>
          invoked (snd (erase_esp32 w)) = invoked w @ replicate k [Str ''erase_flash'']"
    by (simp add: erase_esp32_def)
next
  assume a: "easy_install n port_arg preselect w = Some (r, w') \<and> invoked w = []"
  then have "session_ok (invoked w')" by (blast intro: easy_install_session_ok)
  then show all: "list_all (\<lambda>ps. ps = [Str ''erase_flash''] \<or> write_invocation ps) (invoked w')"
    by (simp add: session_ok_def)
  then show "eraseparams_of w'' \<notin> set (invoked w')" by (rule eraseparams_not_sent)
qed

theorem eraseparams_unused_witness:
  "(let w = fresh_flasher cached_fs (\<lambda>n ps. Succeeds) (\<lambda>n. []) (\<lambda>n. None);
        res = the (easy_install 2 ''COM3'' (Some 16) w)
    in easy_install 2 ''COM3'' (Some 16) w = Some res \<and> invoked w = [] \<and>
       serialport (snd res) = ''COM3'' \<and>
       list_all (\<lambda>ps. ps = [Str ''erase_flash''] \<or> write_invocation ps) (invoked (snd res)) \<and>
       eraseparams_of (snd res) \<notin> set (invoked (snd res)))"
proof -
  let ?w = "fresh_flasher cached_fs (\<lambda>n ps. Succeeds) (\<lambda>n. []) (\<lambda>n. None)"
  let ?res = "the (easy_install 2 ''COM3'' (Some 16) ?w)"
  have run: "easy_install 2 ''COM3'' (Some 16) ?w = Some (fst ?res, snd ?res)"
    using erase_session_run by (cases "easy_install 2 ''COM3'' (Some 16) ?w") (auto simp: prod_eq_iff)
  have start: "invoked ?w = []" by (simp add: fresh_flasher_def invoked_def)
  have port: "serialport (snd ?res) = ''COM3''" by code_simp
  from eraseparams_unused [of _ _ ?w _ 2 "''COM3''" "Some 16" "fst ?res" "snd ?res" "snd ?res"] run start
  have "list_all (\<lambda>ps. ps = [Str ''erase_flash''] \<or> write_invocation ps) (invoked (snd ?res)) \<and>
        eraseparams_of (snd ?res) \<notin> set (invoked (snd ?res))" by blast
  with run start port show ?thesis by (simp add: Let_def)
qed

section \<open>The firmware path in the write parameters\<close>

text \<open>
  Claim C2, evaluated where it fails. With two cached Marauder releases for the WiFi
  devboard, the prerequisite check resolves the newer one and stores it in
  \<open>esp32marauderfw\<close>; the write of choice 1 then passes the text \<open>esp32marauderfw\<close> as
  the binary, the string of the table, and not the resolved path. The last slot of each
  of the seven entries is such a string (\<open>fwbin_slots_are_literals\<close>), and it is the
  last write parameter (\<open>flashparams_last\<close>).
\<close>

theorem placeholder_firmware_path:
  "(let w = fresh_flasher cached_fs (\<lambda>n ps. Succeeds) (\<lambda>n. []) (\<lambda>n. None)
    in fst (get_latest_firmware ''ESP32Marauder/releases/esp32_marauder_v*_flipper.bin'' w)
         = Inr (Some ''ESP32Marauder/releases/esp32_marauder_v1_1_flipper.bin'') \<and>
       map_option (\<lambda>x. (fst x, esp32marauderfw (snd x), last (invoked (snd x))))
         (easy_install 2 ''COM3'' (Some 1) w)
         = Some (Inr (), Some ''ESP32Marauder/releases/esp32_marauder_v1_1_flipper.bin'',
             [Str ''-p'', Str ''COM3'', Str ''-b'', Str ''115200'', Str ''-c'', Str ''ESP32-S2'',
              Str ''--before'', Str ''default_reset'', Str ''-a'', Str ''no_reset'', Str ''write_flash'',
              Str ''--flash_mode'', Str ''dio'', Str ''--flash_freq'', Str ''80m'', Str ''--flash_size'',
              Str ''4MB'', Str ''0x1000'', Str ''Marauder/bootloader.bin'', Str ''0x8000'',
              Str ''Marauder/partitions.bin'', Str ''0x10000'', Str ''esp32marauderfw'']))"
  by code_simp

section \<open>The tuples of the table\<close>

text \<open>
  Claim C1, evaluated where it fails. The tuples of the choices 7, 14 and 15 do not have
  nine slots, so the assignment to nine targets raises \<open>ValueError\<close> and the run ends
  before the flasher is called. For the other twelve flashable choices the three
  offsets ascend strictly (\<open>nine_slot_profiles_ascending\<close>).
\<close>

theorem tuple_arity_mismatch:
  "map (\<lambda>c. map_option (\<lambda>x. (fst x, invoked (snd x)))
              (easy_install 2 ''COM3'' (Some c)
                 (fresh_flasher cached_fs (\<lambda>n ps. Succeeds) (\<lambda>n. []) (\<lambda>n. None))))
       [7, 14, 15]
   = [Some (Inl (ValueError ''too many values to unpack (expected 9)''), []),
      Some (Inl (ValueError ''not enough values to unpack (expected 9)''), []),
      Some (Inl (ValueError ''not enough values to unpack (expected 9)''), [])]"
  by code_simp

section \<open>An unknown menu choice\<close>

text \<open>
  Claim C4. For a choice outside 1..18, \<open>flash_firmware\<close> prints the error and exits,
  leaving the object as it was; and \<open>choose_fw\<close>, whether the choice was preselected or
  is typed at the prompt, ends in that exit without a call of the flasher.
\<close>

theorem invalid_choice_exits:
  assumes "c < 1 \<or> 18 < c"
  shows "(fwchoice w = Some c \<longrightarrow>
            flash_firmware n w = Some (Inl SystemExit, emit (Print ''Invalid option!'') w))
       \<and> (fwchoice w = Some c \<or>
            (fwchoice w = None \<and> stdin w (length (filter is_prompt (trace w))) = Some c) \<longrightarrow>
            (\<exists>w'. choose_fw (Suc n) w = Some (Inl SystemExit, w') \<and> invoked w' = invoked w \<and>
                  last (trace w') = Print ''Invalid option!''))"
proof (intro conjI impI)
  assume "fwchoice w = Some c"
  with assms show "flash_firmware n w = Some (Inl SystemExit, emit (Print ''Invalid option!'') w)"
    by (simp add: flash_firmware.simps lookup_option_def lookup_invalid)
next
  assume "fwchoice w = Some c \<or>
            (fwchoice w = None \<and> stdin w (length (filter is_prompt (trace w))) = Some c)"
  then show "\<exists>w'. choose_fw (Suc n) w = Some (Inl SystemExit, w') \<and> invoked w' = invoked w \<and>
                  last (trace w') = Print ''Invalid option!''"
  proof
    assume pre: "fwchoice w = Some c"
    then have "fwchoice (announce_preselect c w) = Some c"
      by (simp add: announce_preselect_def)
    with assms pre have "choose_fw (Suc n) w =
        Some (Inl SystemExit, emit (Print ''Invalid option!'') (announce_preselect c w))"
      by (simp add: choose_fw.simps flash_firmware.simps lookup_option_def lookup_invalid)
    then show ?thesis by simp
  next
    assume ask: "fwchoice w = None \<and> stdin w (length (filter is_prompt (trace w))) = Some c"
    let ?w2 = "emit (Prompt ''Please enter the number of your choice: '')
                 (emit PrintMenu (w\<lparr>fwchoicepreselect := Some False\<rparr>))"
    from ask have a: "ask_choice w = (Inr (), ?w2\<lparr>fwchoice := Some c\<rparr>)"
      by (simp add: ask_choice_def Let_def emit_def)
    with assms ask have "choose_fw (Suc n) w =
        Some (Inl SystemExit, emit (Print ''Invalid option!'') (?w2\<lparr>fwchoice := Some c\<rparr>))"
      by (simp add: choose_fw.simps flash_firmware.simps lookup_option_def lookup_invalid)
    then show ?thesis by simp
  qed
qed

theorem invalid_choice_exits_witness:
  "(let w = fresh_flasher cached_fs (\<lambda>n ps. Succeeds) (\<lambda>n. []) (\<lambda>n. Some 19)
    in ((19::int) < 1 \<or> (18::int) < 19) \<and> fwchoice w = None \<and>
       stdin w (length (filter is_prompt (trace w))) = Some 19 \<and>
       (\<exists>w'. choose_fw (Suc 0) w = Some (Inl SystemExit, w') \<and> invoked w' = invoked w \<and>
             last (trace w') = Print ''Invalid option!'') \<and>
       flash_firmware 0 (w\<lparr>fwchoice := Some 0\<rparr>) =
         Some (Inl SystemExit, emit (Print ''Invalid option!'') (w\<lparr>fwchoice := Some 0\<rparr>)))"
  using invalid_choice_exits [of 19 "fresh_flasher cached_fs (\<lambda>n ps. Succeeds) (\<lambda>n. []) (\<lambda>n. Some 19)" 0]
        invalid_choice_exits [of 0 "(fresh_flasher cached_fs (\<lambda>n ps. Succeeds) (\<lambda>n. []) (\<lambda>n. Some 19))\<lparr>fwchoice := Some 0\<rparr>" 0]
  by (simp add: fresh_flasher_def Let_def)

section \<open>The scan of the serial ports\<close>

text \<open>
  Claim C5, as the code has it. Without a preconfigured serial port the discovery
  tests every port for each of the vendor ids 303A, 10C4, 1A86 and 0483, in that order
  and without leaving a loop early: the last vendor id of the list that has a matching
  port becomes the device, and of its ports the last one enumerated becomes the serial
  port; \<open>checkforserialport\<close> then prints the hint of that vendor id and returns.
\<close>

theorem last_vendor_wins:
  assumes "serialport w = []"
  shows "(let ports = comports w (length (filter is_comports (trace w)));
              ms = filter (\<lambda>v. matching_ports v ports \<noteq> []) [''303A'', ''10C4'', ''1A86'', ''0483''];
              found = w\<lparr>serialport := (if ms = [] then []
                                        else device (last (matching_ports (last ms) ports))),
                        trace := trace w @ [Print ''Checking for serial port...'', Comports]\<rparr>
          in scan_for_port w = (if ms = [] then None else Some (last ms), found) \<and>
             (ms \<noteq> [] \<and> serialport found \<noteq> [] \<longrightarrow>
                checkforserialport n w = Some (Inr (), print_device_type (last ms) found)))"
proof -
  let ?ports = "comports w (length (filter is_comports (trace w)))"
  define ms where "ms = filter (\<lambda>v. matching_ports v ?ports \<noteq> []) [''303A'', ''10C4'', ''1A86'', ''0483'']"
  define found where "found = w\<lparr>serialport := (if ms = [] then []
                                        else device (last (matching_ports (last ms) ?ports))),
                        trace := trace w @ [Print ''Checking for serial port...'', Comports]\<rparr>"
  have "scan_vids vids ?ports ([], None) =
      (case ms of [] \<Rightarrow> ([], None)
       | m # ms' \<Rightarrow> (device (last (matching_ports (last (m # ms')) ?ports)), Some (last (m # ms'))))"
    unfolding ms_def vids_def [symmetric] by (rule scan_vids_last)
  then have sv: "scan_vids vids ?ports ([], None) =
      (if ms = [] then ([], None)
       else (device (last (matching_ports (last ms) ?ports)), Some (last ms)))"
    by (cases ms) simp_all
  with assms have sc: "scan_for_port w = (if ms = [] then None else Some (last ms), found)"
    by (simp add: scan_for_port_def Let_def emit_def found_def)
  from assms sc have cf: "ms \<noteq> [] \<and> serialport found \<noteq> [] \<longrightarrow>
      checkforserialport n w = Some (Inr (), print_device_type (last ms) found)"
    by (simp add: checkforserialport.simps finish_check_def)
  show ?thesis using sc cf unfolding Let_def ms_def found_def by blast
qed

theorem last_vendor_wins_witness:
  "serialport (fresh_flasher [] (\<lambda>n ps. Succeeds) (\<lambda>n. two_boards) (\<lambda>n. None)) = [] \<and>
   fst (scan_for_port (fresh_flasher [] (\<lambda>n ps. Succeeds) (\<lambda>n. two_boards) (\<lambda>n. None))) = Some ''0483'' \<and>
   serialport (snd (scan_for_port (fresh_flasher [] (\<lambda>n ps. Succeeds) (\<lambda>n. two_boards) (\<lambda>n. None))))
     = ''/dev/ttyUSB0'' \<and>
   map_option (\<lambda>x. (fst x, serialport (snd x), last (trace (snd x))))
     (checkforserialport 0 (fresh_flasher [] (\<lambda>n ps. Succeeds) (\<lambda>n. two_boards) (\<lambda>n. None)))
     = Some (Inr (), ''/dev/ttyUSB0'', Print ''You are most likely using an DrB0rk S3 Multiboard'')"
proof -
  let ?w = "fresh_flasher [] (\<lambda>n ps. Succeeds) (\<lambda>n. two_boards) (\<lambda>n. None)"
  have e: "serialport ?w = []" "comports ?w = (\<lambda>n. two_boards)"
    by (simp_all add: fresh_flasher_def)
  from last_vendor_wins [OF e(1), of 0] e two_boards_matches
  show ?thesis by (simp add: Let_def print_device_type_def device_types_def)
qed

text \<open>
  Claim C5 as stated fails with two boards attached: the specification's reading picks
  the devboard, whose vendor id comes first in the list; the discovery picks the
  multiboard.
\<close>

theorem first_vendor_wins_counterexample:
  "map_option (\<lambda>x. (fst x, serialport (snd x)))
     (checkforserialport 0 (fresh_flasher [] (\<lambda>n ps. Succeeds) (\<lambda>n. two_boards) (\<lambda>n. None)))
     = Some (Inr (), ''/dev/ttyUSB0'') \<and>
   fst (scan_for_port (fresh_flasher [] (\<lambda>n ps. Succeeds) (\<lambda>n. two_boards) (\<lambda>n. None))) = Some ''0483'' \<and>
   spec_discover two_boards = (''/dev/ttyACM0'', Some ''303A'')"
  by code_simp

section \<open>The latest firmware\<close>

text \<open>
  Claim C7, evaluated where it fails. On a POSIX system \<open>os.path.getctime\<close> is the time
  of the last change of the inode: of two matching releases the one created first, whose
  mode was changed later, is returned, and not the one created last. When a match is a
  dangling link, \<open>getctime\<close> raises and no path is returned. Without a match the result
  is \<open>None\<close> (\<open>latest_firmware_none\<close>), the file system is never changed
  (\<open>latest_firmware_fs\<close>), and a path that is returned has the greatest \<open>getctime\<close> of
  the matches (\<open>latest_firmware_greatest\<close>), which is the time of creation where the
  system is not a POSIX one (\<open>getctime_creation\<close>).
\<close>

theorem latest_by_change_time:
  "glob ''ESP32Marauder/releases/esp32_marauder_v*_flipper.bin'' touched_fs =
     [''ESP32Marauder/releases/esp32_marauder_v1_0_flipper.bin'',
      ''ESP32Marauder/releases/esp32_marauder_v1_1_flipper.bin''] \<and>
   created touched_fs ''ESP32Marauder/releases/esp32_marauder_v1_0_flipper.bin'' = Some 3 \<and>
   created touched_fs ''ESP32Marauder/releases/esp32_marauder_v1_1_flipper.bin'' = Some 5 \<and>
   fst (get_latest_firmware ''ESP32Marauder/releases/esp32_marauder_v*_flipper.bin''
          (fresh_flasher touched_fs (\<lambda>n ps. Succeeds) (\<lambda>n. []) (\<lambda>n. None)))
     = Inr (Some ''ESP32Marauder/releases/esp32_marauder_v1_0_flipper.bin'') \<and>
   glob ''ESP32Marauder/releases/esp32_marauder_v*_flipper.bin'' dangling_fs =
     [''ESP32Marauder/releases/esp32_marauder_v1_0_flipper.bin'',
      ''ESP32Marauder/releases/esp32_marauder_v1_1_flipper.bin''] \<and>
   fst (get_latest_firmware ''ESP32Marauder/releases/esp32_marauder_v*_flipper.bin''
          (fresh_flasher dangling_fs (\<lambda>n ps. Succeeds) (\<lambda>n. []) (\<lambda>n. None)))
     = Inl (FileNotFoundError ''ESP32Marauder/releases/esp32_marauder_v1_1_flipper.bin'')"
  by code_simp

section \<open>The update without the release directory\<close>

text \<open>
  Claim C8, as the code has it. When no directory is found at \<open>ESP32Marauder/releases\<close>,
  \<open>update_option\<close> ends in an exception after its first printed line, before any git
  command and before the prerequisites are checked again, for every bound on the nested
  calls. When nothing is found under that name and the deletion loops meet only files,
  the exception is the \<open>FileNotFoundError\<close> of \<open>os.rmdir('ESP32Marauder/releases')\<close>.
\<close>

theorem update_without_releases:
  "(\<not> is_directory (fs w) ''ESP32Marauder/releases'' \<longrightarrow>
      (\<exists>e w1. update_option n w = Some (Inl e, w1) \<and>
         trace w1 = trace w @ [Print ''Checking for and deleting the files before replacing them...'']))
   \<and> (lstat (fs w) ''ESP32Marauder/releases'' = Inl (FileNotFoundError ''ESP32Marauder/releases'') \<and>
       files_only (fs w) \<longrightarrow>
      (\<exists>w1. update_option n w = Some (Inl (FileNotFoundError ''ESP32Marauder/releases''), w1) \<and>
         trace w1 = trace w @ [Print ''Checking for and deleting the files before replacing them...'']))"
proof -
  let ?rel = "''ESP32Marauder/releases''"
  let ?w0 = "emit (Print ''Checking for and deleting the files before replacing them...'') w"
  let ?loops = "and_then (\<lambda>w. remove_all (rglob ''ESP32Marauder/*/*'' (fs w)) w)
             (\<lambda>w. remove_all (rglob ''EvilPortal/*'' (fs w)) w)"
  let ?rest = "and_then (fs_step (os_rmdir ?rel))
             (and_then (fs_step (os_rmdir ''ESP32Marauder''))
                (fs_step (os_rmdir ''EvilPortal'')))"
  have df: "delete_files w = and_then ?loops ?rest ?w0"
    by (simp add: delete_files_def and_then_assoc)
  obtain r1 w1 where l: "?loops ?w0 = (r1, w1)" by (cases "?loops ?w0")
  from deletion_loops [OF l]
  have s: "trace w1 = trace ?w0" "shrunk (fs w) (fs w1)" "files_only (fs w) \<longrightarrow> r1 = Inr ()"
    by simp_all
  have upd: "update_option n w = Some (Inl e, w2)" if "delete_files w = (Inl e, w2)" for e w2
    using that by (simp add: update_option.simps and_then_def)
  have any: "\<exists>e w1. update_option n w = Some (Inl e, w1) \<and> trace w1 = trace ?w0"
    if nd: "\<not> is_directory (fs w) ?rel"
  proof (cases r1)
    case (Inl e)
    with l df have "delete_files w = (Inl e, w1)" by (simp add: and_then_def)
    from upd [OF this] s(1) show ?thesis by blast
  next
    case (Inr u)
    from nd shrunk_is_directory [OF s(2), of ?rel] have "\<not> is_directory (fs w1) ?rel" by simp
    from rmdir_not_directory [OF this] obtain e where "fs_step (os_rmdir ?rel) w1 = (Inl e, w1)" ..
    with l df Inr have "delete_files w = (Inl e, w1)" by (simp add: and_then_def)
    from upd [OF this] s(1) show ?thesis by blast
  qed
  have enoent: "\<exists>w1. update_option n w = Some (Inl (FileNotFoundError ?rel), w1) \<and> trace w1 = trace ?w0"
    if h: "lstat (fs w) ?rel = Inl (FileNotFoundError ?rel) \<and> files_only (fs w)"
  proof -
    from h s(3) have r1: "r1 = Inr ()" by simp
    from h shrunk_enoent [OF s(2), of ?rel] have "lstat (fs w1) ?rel = Inl (FileNotFoundError ?rel)"
      by simp
    from rmdir_enoent [OF this] l df r1
    have "delete_files w = (Inl (FileNotFoundError ?rel), w1)" by (simp add: and_then_def)
    from upd [OF this] s(1) show ?thesis by blast
  qed
  from any enoent show ?thesis by simp
qed

theorem update_without_releases_witness:
  "\<not> is_directory (fs (fresh_flasher leftover_fs (\<lambda>n ps. Succeeds) (\<lambda>n. []) (\<lambda>n. None)))
       ''ESP32Marauder/releases'' \<and>
   lstat (fs (fresh_flasher leftover_fs (\<lambda>n ps. Succeeds) (\<lambda>n. []) (\<lambda>n. None)))
       ''ESP32Marauder/releases'' = Inl (FileNotFoundError ''ESP32Marauder/releases'') \<and>
   files_only (fs (fresh_flasher leftover_fs (\<lambda>n ps. Succeeds) (\<lambda>n. []) (\<lambda>n. None))) \<and>
   rglob ''ESP32Marauder/*/*'' leftover_fs = [''ESP32Marauder/old/esp32_marauder_v0_9_flipper.bin''] \<and>
   rglob ''EvilPortal/*'' leftover_fs = [''EvilPortal/EvilPortalS2.bin''] \<and>
   (\<exists>w1. update_option 0 (fresh_flasher leftover_fs (\<lambda>n ps. Succeeds) (\<lambda>n. []) (\<lambda>n. None)) =
            Some (Inl (FileNotFoundError ''ESP32Marauder/releases''), w1) \<and>
         trace w1 = [Print ''Checking for and deleting the files before replacing them...''])"
proof -
  let ?w = "fresh_flasher leftover_fs (\<lambda>n ps. Succeeds) (\<lambda>n. []) (\<lambda>n. None)"
  have f: "fs ?w = leftover_fs" "trace ?w = []" by (simp_all add: fresh_flasher_def)
  from update_without_releases [of ?w 0] leftover_facts f
  show ?thesis by simp
qed

text \<open>
  Claim C8 as stated fails when one of the paths that the deletion loops match is a
  directory, and when \<open>ESP32Marauder\<close> is a file: the directory
  \<open>ESP32Marauder/releases\<close> does not exist, and the exception is not the missing
  directory.
\<close>

theorem update_not_found_counterexample:
  "\<not> path_exists ''ESP32Marauder/releases'' stray_directory_fs \<and>
   map_option fst
     (update_option 0 (fresh_flasher stray_directory_fs (\<lambda>n ps. Succeeds) (\<lambda>n. []) (\<lambda>n. None)))
   = Some (Inl (IsADirectoryError ''ESP32Marauder/old/v0'')) \<and>
   \<not> path_exists ''ESP32Marauder/releases'' blocked_fs \<and>
   map_option fst
     (update_option 0 (fresh_flasher blocked_fs (\<lambda>n ps. Succeeds) (\<lambda>n. []) (\<lambda>n. None)))
   = Some (Inl (NotADirectoryError ''ESP32Marauder/releases''))"
  by code_simp

section \<open>The fallback of the discovery\<close>

text \<open>
  Claim C6, evaluated where it fails. The operator types 1 at the menu and no board is
  attached. \<open>checkforserialport\<close> calls \<open>choose_fw\<close>, which finds \<open>fwchoice\<close> set and
  takes the branch of a preselected choice: no menu and no prompt, the same choice after
  5 seconds, and an exit at the second failed discovery. When a board is attached
  during the wait, the inner call flashes it and the outer \<open>checkforserialport\<close> then
  reads its unassigned local \<open>device\<close>. The preselected half of the claim holds
  (\<open>preselected_no_device_exits\<close>).
\<close>

theorem fallback_is_not_interactive:
  "map_option (\<lambda>x. (fst x, trace (snd x)))
     (choose_fw 2 (fresh_flasher cached_fs (\<lambda>n ps. Succeeds) (\<lambda>n. []) (\<lambda>n. Some 1)))
   = Some (Inl SystemExit,
       [PrintMenu, Prompt ''Please enter the number of your choice: '',
        Print ''Checking for serial port...'', Comports,
        Print ''No ESP32 device was detected!'',
        Print ''Please plug in a Flipper WiFi devboard or an ESP32 chip and try again'',
        Print ''You have preselected option 1'',
        Print ''If you didn't mean to do this, CTRL-C now!'',
        Print ''Waiting 5 seconds before continuing...'', Sleep 5,
        Print ''Checking for serial port...'', Comports,
        Print ''No ESP32 device was detected!'',
        Print ''Please plug in a Flipper WiFi devboard or an ESP32 chip and try again''])
   \<and>
   map_option (\<lambda>x. (fst x, length (filter (\<lambda>e. e = PrintMenu) (trace (snd x))), invoked (snd x)))
     (choose_fw 2 (fresh_flasher cached_fs (\<lambda>n ps. Succeeds) plugged_in_late (\<lambda>n. Some 1)))
   = Some (Inl (UnboundLocalError ''device''), 1,
       [[Str ''erase_flash''],
        [Str ''-p'', Str ''/dev/ttyUSB0'', Str ''-b'', Str ''115200'', Str ''-c'', Str ''ESP32-S2'',
         Str ''--before'', Str ''default_reset'', Str ''-a'', Str ''no_reset'', Str ''write_flash'',
         Str ''--flash_mode'', Str ''dio'', Str ''--flash_freq'', Str ''80m'', Str ''--flash_size'',
         Str ''4MB'', Str ''0x1000'', Str ''Marauder/bootloader.bin'', Str ''0x8000'',
         Str ''Marauder/partitions.bin'', Str ''0x10000'', Str ''esp32marauderfw'']])"
  by code_simp

end
